theory Spec2Isabelle
  imports Main "HOL-Library.Multiset"
begin

section \<open>Python values used by the cost scripts\<close>

subsection \<open>Floats\<close>

text \<open>
  A Python \<^verbatim>\<open>float\<close> is an IEEE 754 binary64 number. Every finite binary64 value is an
  integer multiple of \<open>2\<^sup>-\<^sup>1\<^sup>0\<^sup>7\<^sup>4\<close>, so a finite float is kept as that integer:
  \<open>Fin k\<close> stands for \<open>k / 2 ^ 1074\<close>. The integers that occur are those with at most 53
  significant bits and magnitude below \<open>2 ^ 2098\<close> (that is \<open>2 ^ 1024\<close> as a value).
  The sign of zero is not kept: the only float operations of the scripts are addition
  starting from \<^verbatim>\<open>0.0\<close>, comparison and formatting of the sums, and an IEEE sum is
  \<^verbatim>\<open>-0.0\<close> only when both operands are.
\<close>

datatype pyfloat = Fin int | PInf | NInf | NaN

function bit_length :: "int \<Rightarrow> nat" where
  "bit_length n = (if n \<le> 0 then 0 else Suc (bit_length (n div 2)))"
  by pat_completeness auto
termination
  by (relation "measure nat") auto

declare bit_length.simps [simp del]

definition overflow_limit :: int where
  "overflow_limit = 2 ^ 2098"

text \<open>
  \<open>fround neg num den\<close> is the binary64 nearest to the rational \<open>num / den\<close>
  (\<open>num \<ge> 0\<close>, \<open>den > 0\<close>, counted in units of \<open>2\<^sup>-\<^sup>1\<^sup>0\<^sup>7\<^sup>4\<close>) with the sign \<open>neg\<close>:
  round to nearest, ties to even, 53 significant bits, overflow to infinity.
\<close>

definition fround :: "bool \<Rightarrow> int \<Rightarrow> int \<Rightarrow> pyfloat" where
  "fround neg num den =
     (let s = bit_length (num div den) - 53;
          d = den * 2 ^ s;
          q = num div d;
          r = num mod d;
          q' = (if d < 2 * r \<or> (2 * r = d \<and> odd q) then q + 1 else q);
          k = q' * 2 ^ s
      in if overflow_limit \<le> k then (if neg then NInf else PInf)
         else Fin (if neg then - k else k))"

text \<open>Python's \<^verbatim>\<open>a + b\<close> on floats.\<close>

fun fadd :: "pyfloat \<Rightarrow> pyfloat \<Rightarrow> pyfloat" where
  "fadd (Fin a) (Fin b) = fround (a + b < 0) \<bar>a + b\<bar> 1"
| "fadd NaN y = NaN"
| "fadd x NaN = NaN"
| "fadd PInf NInf = NaN"
| "fadd NInf PInf = NaN"
| "fadd PInf y = PInf"
| "fadd x PInf = PInf"
| "fadd NInf y = NInf"
| "fadd x NInf = NInf"

text \<open>Python's \<^verbatim>\<open>a < b\<close> on floats: every comparison with NaN is false.\<close>

fun flt :: "pyfloat \<Rightarrow> pyfloat \<Rightarrow> bool" where
  "flt (Fin a) (Fin b) = (a < b)"
| "flt NaN y = False"
| "flt x NaN = False"
| "flt x NInf = False"
| "flt NInf y = True"
| "flt PInf y = False"
| "flt x PInf = True"

text \<open>The float with value \<open>m / 2 ^ e\<close>, for writing float literals: \<open>10.5\<close> is \<open>dyadic 21 1\<close>.\<close>

definition dyadic :: "int \<Rightarrow> nat \<Rightarrow> pyfloat" where
  "dyadic m e = Fin (m * 2 ^ (1074 - e))"

text \<open>
  The integers that are binary64 values: at most 53 significant bits, below the overflow
  threshold. A sum of two floats is exact when it is one of them.
\<close>

definition representable :: "int \<Rightarrow> bool" where
  "representable k =
     (\<bar>k\<bar> < overflow_limit \<and> (bit_length \<bar>k\<bar> \<le> 53 \<or> 2 ^ (bit_length \<bar>k\<bar> - 53) dvd k))"

fun is_double :: "pyfloat \<Rightarrow> bool" where
  "is_double (Fin k) = representable k"
| "is_double x = True"

subsection \<open>Strings\<close>

text \<open>
  Strings are ASCII texts. \<open>is_space\<close> is \<^verbatim>\<open>str.isspace\<close> on ASCII characters, and
  \<open>strip\<close> is \<^verbatim>\<open>str.strip()\<close> on such texts. White space and digits beyond ASCII
  (such as U+00A0, which Python strips and \<^verbatim>\<open>float\<close> skips) are not covered: a field
  holding them is outside what is stated here about \<open>strip\<close> and \<open>py_float\<close>.
\<close>

definition is_space :: "char \<Rightarrow> bool" where
  "is_space c = (let n = (of_char c :: nat) in (9 \<le> n \<and> n \<le> 13) \<or> (28 \<le> n \<and> n \<le> 32))"

definition strip :: "string \<Rightarrow> string" where
  "strip s = rev (dropWhile is_space (rev (dropWhile is_space s)))"

text \<open>\<^verbatim>\<open>v or d\<close> for a value that is a string or \<^verbatim>\<open>None\<close>.\<close>

definition py_or :: "string option \<Rightarrow> string \<Rightarrow> string" where
  "py_or v d = (case v of None \<Rightarrow> d | Some s \<Rightarrow> if s = [] then d else s)"

definition is_digit :: "char \<Rightarrow> bool" where
  "is_digit c = (let n = (of_char c :: nat) in 48 \<le> n \<and> n \<le> 57)"

definition digit_val :: "char \<Rightarrow> int" where
  "digit_val c = int (of_char c) - 48"

definition digits_val :: "string \<Rightarrow> int" where
  "digits_val ds = foldl (\<lambda>acc c. 10 * acc + digit_val c) 0 ds"

definition lower :: "char \<Rightarrow> char" where
  "lower c = (let n = (of_char c :: nat) in if 65 \<le> n \<and> n \<le> 90 then char_of (n + 32) else c)"

subsection \<open>The builtin \<^verbatim>\<open>float(str)\<close>\<close>

text \<open>
  \<^verbatim>\<open>float\<close> accepts, between optional white space, an optional sign followed by
  \<^verbatim>\<open>inf\<close>, \<^verbatim>\<open>infinity\<close> or \<^verbatim>\<open>nan\<close> in any case, or by a decimal number with an optional
  exponent; single underscores may stand between two digits. Anything else raises
  \<^verbatim>\<open>ValueError\<close>, which is the result \<open>None\<close>. The decimal value is rounded
  correctly to the nearest binary64.
\<close>

fun underscores_ok :: "char \<Rightarrow> string \<Rightarrow> bool" where
  "underscores_ok prev [] = (prev \<noteq> CHR ''_'')"
| "underscores_ok prev (c # cs) =
     (if c = CHR ''_'' then is_digit prev \<and> underscores_ok c cs
      else if prev = CHR ''_'' then is_digit c \<and> underscores_ok c cs
      else underscores_ok c cs)"

definition parse_sign :: "string \<Rightarrow> bool \<times> string" where
  "parse_sign s = (case s of
       [] \<Rightarrow> (False, s)
     | c # t \<Rightarrow> if c = CHR ''-'' then (True, t)
                else if c = CHR ''+'' then (False, t) else (False, s))"

text \<open>An unsigned decimal \<open>digits [. digits] [e [sign] digits]\<close> as mantissa and power of ten.\<close>

definition parse_decimal :: "string \<Rightarrow> (int \<times> int) option" where
  "parse_decimal s =
     (let ip = takeWhile is_digit s;
          r1 = dropWhile is_digit s;
          has_point = (r1 \<noteq> [] \<and> hd r1 = CHR ''.'');
          fp = (if has_point then takeWhile is_digit (tl r1) else []);
          r2 = (if has_point then dropWhile is_digit (tl r1) else r1);
          mant = digits_val (ip @ fp)
      in if ip = [] \<and> fp = [] then None
         else if r2 = [] then Some (mant, - int (length fp))
         else if hd r2 = CHR ''e'' \<or> hd r2 = CHR ''E'' then
           (let (eneg, ds) = parse_sign (tl r2)
            in if ds \<noteq> [] \<and> list_all is_digit ds
               then Some (mant, (if eneg then - digits_val ds else digits_val ds)
                                 - int (length fp))
               else None)
         else None)"

definition decimal_to_float :: "bool \<Rightarrow> int \<Rightarrow> int \<Rightarrow> pyfloat" where
  "decimal_to_float neg n k =
     (if 0 \<le> k then fround neg (n * 10 ^ nat k * 2 ^ 1074) 1
      else fround neg (n * 2 ^ 1074) (10 ^ nat (- k)))"

definition is_cspace :: "char \<Rightarrow> bool" where
  "is_cspace c = (let n = (of_char c :: nat) in (9 \<le> n \<and> n \<le> 13) \<or> n = 32)"

text \<open>What a text accepted by \<^verbatim>\<open>float\<close> denotes: the sign first.\<close>

datatype float_literal = Infinity bool | NotANumber | Decimal bool int int

definition parse_float_literal :: "string \<Rightarrow> float_literal option" where
  "parse_float_literal s =
     (if underscores_ok (CHR 0x00) s then
        (let t = filter (\<lambda>c. c \<noteq> CHR ''_'')
                   (rev (dropWhile is_cspace (rev (dropWhile is_cspace s))));
             signed = parse_sign t;
             l = map lower (snd signed)
         in if l = ''inf'' \<or> l = ''infinity'' then Some (Infinity (fst signed))
            else if l = ''nan'' then Some NotANumber
            else (case parse_decimal (snd signed) of
                    None \<Rightarrow> None
                  | Some (n, k) \<Rightarrow> Some (Decimal (fst signed) n k)))
      else None)"

fun literal_value :: "float_literal \<Rightarrow> pyfloat" where
  "literal_value (Infinity neg) = (if neg then NInf else PInf)"
| "literal_value NotANumber = NaN"
| "literal_value (Decimal neg n k) = decimal_to_float neg n k"

definition py_float :: "string \<Rightarrow> pyfloat option" where
  "py_float s = map_option literal_value (parse_float_literal s)"

subsection \<open>The format \<^verbatim>\<open>f"{amount:,.2f}"\<close>\<close>

definition digit_char :: "nat \<Rightarrow> char" where
  "digit_char n = char_of (48 + n)"

function dec_digits :: "nat \<Rightarrow> string" where
  "dec_digits n = (if n < 10 then [digit_char n]
                   else dec_digits (n div 10) @ [digit_char (n mod 10)])"
  by pat_completeness auto
termination
  by (relation "measure id") auto

declare dec_digits.simps [simp del]

text \<open>Thousands separators, on the digits in reverse order.\<close>

fun group3 :: "string \<Rightarrow> string" where
  "group3 (a # b # c # d # r) = a # b # c # CHR '','' # group3 (d # r)"
| "group3 ds = ds"

text \<open>
  The exact value is rounded to two decimals, ties to even; the sign is printed for
  every negative value, also when the digits round to zero.
\<close>

definition round_cents :: "int \<Rightarrow> nat" where
  "round_cents a =
     (let n = a * 100;
          d = 2 ^ 1074;
          q = n div d;
          r = n mod d
      in nat (if d < 2 * r \<or> (2 * r = d \<and> odd q) then q + 1 else q))"

definition render_cents :: "nat \<Rightarrow> string" where
  "render_cents cents =
     rev (group3 (rev (dec_digits (cents div 100))))
     @ ''.'' @ [digit_char (cents mod 100 div 10), digit_char (cents mod 10)]"

definition format_2f :: "pyfloat \<Rightarrow> string" where
  "format_2f x = (case x of
       NaN \<Rightarrow> ''nan''
     | PInf \<Rightarrow> ''inf''
     | NInf \<Rightarrow> ''-inf''
     | Fin k \<Rightarrow> (if k < 0 then ''-'' else '''') @ render_cents (round_cents \<bar>k\<bar>))"

subsection \<open>Dictionaries in insertion order\<close>

text \<open>
  A Python \<^verbatim>\<open>dict\<close> keeps its keys in the order of their first insertion, and
  \<^verbatim>\<open>totals.items()\<close> is read in that order: a dictionary is a list of pairs with
  distinct keys.
\<close>

definition dict_get :: "('k \<times> 'v) list \<Rightarrow> 'k \<Rightarrow> 'v \<Rightarrow> 'v" where
  "dict_get d k dflt = (case map_of d k of None \<Rightarrow> dflt | Some v \<Rightarrow> v)"

fun dict_set :: "('k \<times> 'v) list \<Rightarrow> 'k \<Rightarrow> 'v \<Rightarrow> ('k \<times> 'v) list" where
  "dict_set [] k v = [(k, v)]"
| "dict_set ((k', v') # d) k v =
     (if k' = k then (k', v) # d else (k', v') # dict_set d k v)"

subsection \<open>Events and exits\<close>

text \<open>
  What the scripts do to the outside is a list of events. A run ends by returning, by
  \<^verbatim>\<open>sys.exit(code)\<close> after a message on the error stream, or by an exception nobody
  catches, which ends the interpreter with code 1.
\<close>

datatype event =
    Stdout string
  | Stderr string
  | Traceback string
  | OpenWrite string
  | WriteRow string "string list"
  | SheetsCreate string
  | SheetsAddTab string string
  | SheetsClear string string
  | SheetsUpdate string string string
  | DriveShare string string
  | WriteJson string "(string \<times> string) list"
  | RunScript string

text \<open>
  \<open>NoAnswer\<close> is a run that waits for an answer of a remote service that does not come;
  such a run has no exit code.
\<close>

datatype abort = SysExit string int | Uncaught string | NoAnswer

fun abort_events :: "abort \<Rightarrow> event list" where
  "abort_events (SysExit msg code) = [Stderr msg]"
| "abort_events (Uncaught exn) = [Traceback exn]"
| "abort_events NoAnswer = []"

fun abort_code :: "abort \<Rightarrow> int option" where
  "abort_code (SysExit msg code) = Some code"
| "abort_code (Uncaught exn) = Some 1"
| "abort_code NoAnswer = None"

section \<open>cost\_by\_service.py\<close>

subsection \<open>load\_costs\<close>

text \<open>
  A row of \<^verbatim>\<open>csv.DictReader\<close> maps column names to texts; \<^verbatim>\<open>row.get(name)\<close> is
  \<open>None\<close> for a column the file does not have and for a field missing in a short
  line. The file system gives, for each existing CSV file, the rows the reader yields.
\<close>

type_synonym csv_row = "string \<rightharpoonup> string"

type_synonym totals = "(string \<times> pyfloat) list"

definition row_service :: "csv_row \<Rightarrow> string" where
  "row_service row =
     (let s = strip (py_or (row ''service'') '''')
      in if s = [] then ''Uncategorized'' else s)"

definition row_amount_str :: "csv_row \<Rightarrow> string" where
  "row_amount_str row = strip (py_or (row ''amount'') ''0'')"

definition row_unit :: "csv_row \<Rightarrow> string" where
  "row_unit row = strip (py_or (row ''unit'') '''')"

text \<open>The \<^verbatim>\<open>try: float(amount_str) except ValueError: 0.0\<close>.\<close>

definition row_amount :: "csv_row \<Rightarrow> pyfloat" where
  "row_amount row = (case py_float (row_amount_str row) of None \<Rightarrow> Fin 0 | Some a \<Rightarrow> a)"

text \<open>The body of the loop over the rows, on the pair of \<^verbatim>\<open>totals\<close> and \<^verbatim>\<open>unit\<close>.\<close>

definition load_row :: "totals \<times> string \<Rightarrow> csv_row \<Rightarrow> totals \<times> string" where
  "load_row st row =
     (let service = row_service row;
          unit' = (if row_unit row \<noteq> [] then row_unit row else snd st);
          amount = row_amount row
      in (dict_set (fst st) service (fadd (dict_get (fst st) service (Fin 0)) amount), unit'))"

definition load_rows :: "csv_row list \<Rightarrow> totals \<times> string" where
  "load_rows rows = foldl load_row ([], ''USD'') rows"

definition load_costs :: "(string \<rightharpoonup> csv_row list) \<Rightarrow> string \<Rightarrow> abort + totals \<times> string" where
  "load_costs fs input_path =
     (case fs input_path of
        None \<Rightarrow> Inl (SysExit (''Error: Input CSV not found: '' @ input_path) 1)
      | Some rows \<Rightarrow> Inr (load_rows rows))"

subsection \<open>write\_summary\<close>

text \<open>
  \<^verbatim>\<open>sorted(totals.items(), key=lambda item: item[1], reverse=True)\<close>. Python's sort is
  stable, also with \<^verbatim>\<open>reverse=True\<close>, and compares keys with \<^verbatim>\<open><\<close> only: an item goes
  behind the items whose amount is not less than its own. For amounts without NaN this is
  the list every stable sort returns. With a NaN among the amounts the result of
  \<^verbatim>\<open>sorted\<close> depends on which pairs its algorithm compares; the insertion below agrees
  with CPython on lists that CPython leaves as one run, such as three items with the NaN
  in the middle.
\<close>

fun insert_desc :: "string \<times> pyfloat \<Rightarrow> totals \<Rightarrow> totals" where
  "insert_desc x [] = [x]"
| "insert_desc x (y # ys) =
     (if flt (snd x) (snd y) then y # insert_desc x ys else x # y # ys)"

definition sorted_desc :: "totals \<Rightarrow> totals" where
  "sorted_desc items = foldr insert_desc items []"

text \<open>
  \<^verbatim>\<open>csv.writer(csvfile).writerow(fields)\<close> in the default dialect: fields joined by
  commas, a field with a comma, a quote or a line break quoted, the line ended by CR LF.
\<close>

definition csv_special :: "char \<Rightarrow> bool" where
  "csv_special c = (c = CHR '','' \<or> c = CHR 0x22 \<or> c = CHR 0x0D \<or> c = CHR 0x0A)"

definition csv_field :: "string \<Rightarrow> string" where
  "csv_field f =
     (if list_ex csv_special f
      then [CHR 0x22] @ concat (map (\<lambda>c. if c = CHR 0x22 then [c, c] else [c]) f) @ [CHR 0x22]
      else f)"

fun join_fields :: "string list \<Rightarrow> string" where
  "join_fields [] = []"
| "join_fields [f] = f"
| "join_fields (f # g # fs) = f @ '','' @ join_fields (g # fs)"

definition csv_writerow :: "string list \<Rightarrow> string" where
  "csv_writerow fields =
     (if fields = [[]] then [CHR 0x22, CHR 0x22] else join_fields (map csv_field fields))
     @ [CHR 0x0D, CHR 0x0A]"

definition summary_row :: "string \<Rightarrow> string \<times> pyfloat \<Rightarrow> string list" where
  "summary_row unit item =
     (let currency_prefix = (if unit = ''USD'' then ''$'' else '''');
          formatted_amount = currency_prefix @ format_2f (snd item)
      in [fst item, formatted_amount, unit])"

definition summary_rows :: "totals \<Rightarrow> string \<Rightarrow> string list list" where
  "summary_rows totals unit =
     [''service'', ''total_amount'', ''unit''] # map (summary_row unit) (sorted_desc totals)"

definition write_summary :: "string \<Rightarrow> totals \<Rightarrow> string \<Rightarrow> event list" where
  "write_summary output_path totals unit =
     OpenWrite output_path # map (WriteRow output_path) (summary_rows totals unit)"

text \<open>The text a file holds after the events: opening for writing empties it.\<close>

fun file_text :: "string \<Rightarrow> event list \<Rightarrow> string \<Rightarrow> string" where
  "file_text path [] acc = acc"
| "file_text path (OpenWrite p # es) acc = file_text path es (if p = path then [] else acc)"
| "file_text path (WriteRow p fields # es) acc =
     file_text path es (if p = path then acc @ csv_writerow fields else acc)"
| "file_text path (e # es) acc = file_text path es acc"

fun is_file_write :: "event \<Rightarrow> bool" where
  "is_file_write (OpenWrite p) = True"
| "is_file_write (WriteRow p fields) = True"
| "is_file_write (WriteJson p payload) = True"
| "is_file_write e = False"

fun is_sheet_call :: "event \<Rightarrow> bool" where
  "is_sheet_call (SheetsCreate t) = True"
| "is_sheet_call (SheetsAddTab i t) = True"
| "is_sheet_call (SheetsClear i t) = True"
| "is_sheet_call (SheetsUpdate i r p) = True"
| "is_sheet_call (DriveShare i m) = True"
| "is_sheet_call e = False"

section \<open>cost\_analyzer.py\<close>

subsection \<open>The services and files around a run\<close>

datatype aws_error = BotoCoreError | ClientError

fun error_name :: "aws_error \<Rightarrow> string" where
  "error_name BotoCoreError = ''BotoCoreError''"
| "error_name ClientError = ''ClientError''"

text \<open>
  The answers of Cost Explorer are dictionaries read with \<^verbatim>\<open>.get(key, default)\<close>: an
  entry is \<open>None\<close> when the key is missing.
\<close>

record metric =
  Amount :: "string option"
  Unit :: "string option"

record cost_group =
  Keys :: "string list option"
  Metrics :: "(string \<rightharpoonup> metric) option"

record time_period =
  Start :: "string option"
  End :: "string option"

record period =
  TimePeriod :: "time_period option"
  Groups :: "cost_group list option"
  Total :: "(string \<rightharpoonup> metric) option"

record response =
  ResultsByTime :: "period list option"
  NextPageToken :: "string option"

record request =
  rq_TimePeriod :: "string \<times> string"
  rq_Granularity :: string
  rq_Metrics :: "string list"
  rq_GroupBy :: "(string \<times> string) list option"
  rq_NextPageToken :: "string option"

record account_config =
  aws_access_key_id :: "string option"
  aws_secret_access_key :: "string option"
  region :: "string option"

text \<open>
  What the three clients of one session answer: the \<^verbatim>\<open>Account\<close> entry of the caller
  identity, the \<^verbatim>\<open>AccountAliases\<close> entry of the alias listing, and the answers of
  Cost Explorer to the successive calls of \<^verbatim>\<open>get_cost_and_usage\<close>. A call of the SDK
  fails by raising \<^verbatim>\<open>BotoCoreError\<close> or \<^verbatim>\<open>ClientError\<close>.
\<close>

record aws_services =
  sts_answer :: "aws_error + string option"
  iam_answer :: "aws_error + string list option"
  ce_answers :: "(aws_error + response) list"

datatype json_file = JsonInvalid | JsonDict "string \<rightharpoonup> string"

datatype accounts_file = AccountsInvalid | AccountsJson "account_config list option"

record world =
  csv_rows :: "string \<rightharpoonup> csv_row list"
  sheet_files :: "string \<rightharpoonup> json_file"
  config_files :: "string \<rightharpoonup> accounts_file"
  key_exists :: "string \<Rightarrow> bool"
  aws :: "account_config \<Rightarrow> aws_services"
  new_sheet_id :: string
  sheet_tabs :: "string \<Rightarrow> string list"
  script_code :: "string \<Rightarrow> int"
  today :: string
  thirty_days_ago :: string
  fromisoformat :: "string \<rightharpoonup> string"
  started_at :: string
  finished_at :: string

record analyzer_args =
  a_config :: string
  a_region :: string
  a_start_date :: "string option"
  a_end_date :: "string option"
  a_granularity :: string
  a_group_by :: string
  a_output :: string
  a_gcp_key :: string
  a_sheet_id :: string
  a_sheet_config :: string
  a_sheet_tab :: string
  a_sheet_title :: string
  a_share_with :: "string option"

record service_args =
  s_input :: string
  s_output :: string
  s_gcp_key :: string
  s_sheet_config :: string
  s_sheet_tab :: string

definition truthy :: "string option \<Rightarrow> bool" where
  "truthy v = (case v of None \<Rightarrow> False | Some s \<Rightarrow> s \<noteq> [])"

subsection \<open>default\_dates, load\_aws\_accounts, get\_account\_info\<close>

definition default_dates :: "world \<Rightarrow> string option \<Rightarrow> string option \<Rightarrow> abort + string \<times> string" where
  "default_dates w start_str end_str =
     (if truthy start_str \<and> truthy end_str then Inr (py_or start_str '''', py_or end_str '''')
      else if truthy start_str then
        (case fromisoformat w (py_or start_str '''') of
           None \<Rightarrow> Inl (Uncaught ''ValueError'')
         | Some d \<Rightarrow> Inr (d, today w))
      else if truthy end_str then
        (case fromisoformat w (py_or end_str '''') of
           None \<Rightarrow> Inl (Uncaught ''ValueError'')
         | Some d \<Rightarrow> Inr (thirty_days_ago w, d))
      else Inr (thirty_days_ago w, today w))"

definition load_aws_accounts :: "world \<Rightarrow> string \<Rightarrow> abort + account_config list" where
  "load_aws_accounts w config_path =
     (case config_files w config_path of
        None \<Rightarrow> Inl (SysExit (''Error: AWS accounts config file not found: '' @ config_path) 1)
      | Some AccountsInvalid \<Rightarrow> Inl (Uncaught ''JSONDecodeError'')
      | Some (AccountsJson accounts) \<Rightarrow> Inr (case accounts of None \<Rightarrow> [] | Some l \<Rightarrow> l))"

definition get_account_info ::
  "(aws_error + string list option) \<Rightarrow> (aws_error + string option) \<Rightarrow> string \<times> string" where
  "get_account_info iam_client sts_client =
     (let account_id = (case sts_client of
                          Inl e \<Rightarrow> ''''
                        | Inr identity \<Rightarrow> (case identity of None \<Rightarrow> '''' | Some a \<Rightarrow> a));
          account_name = (case iam_client of
                            Inl e \<Rightarrow> ''''
                          | Inr listing \<Rightarrow>
                              (case (case listing of None \<Rightarrow> [] | Some l \<Rightarrow> l) of
                                 [] \<Rightarrow> ''''
                               | alias # others \<Rightarrow> alias))
      in (account_id, account_name))"

subsection \<open>The Google sheet\<close>

text \<open>The calls of the Google API are recorded as events; their failures are not modelled.\<close>

definition ensure_sheet_tab :: "world \<Rightarrow> string \<Rightarrow> string \<Rightarrow> event list \<times> string" where
  "ensure_sheet_tab w sid tab =
     (let tab' = (if tab = [] then ''Sheet1'' else tab)
      in if tab' \<in> set (sheet_tabs w sid) then ([], tab') else ([SheetsAddTab sid tab'], tab'))"

definition upload_csv_to_google_sheet ::
  "world \<Rightarrow> string \<Rightarrow> string \<Rightarrow> string \<Rightarrow> string \<Rightarrow> string \<Rightarrow> string option
     \<Rightarrow> event list \<times> string \<times> string" where
  "upload_csv_to_google_sheet w csv_path gcp_key_path sid title tab share =
     (let created = (if sid = [] then [SheetsCreate title] else []);
          sid' = (if sid = [] then new_sheet_id w else sid);
          ensured = ensure_sheet_tab w sid' tab;
          tab' = snd ensured;
          written = [SheetsClear sid' tab', SheetsUpdate sid' (tab' @ ''!A1'') csv_path];
          shared = (if truthy share then [DriveShare sid' (py_or share '''')] else [])
      in (created @ fst ensured @ written @ shared,
          sid', ''https://docs.google.com/spreadsheets/d/'' @ sid'))"

definition load_sheet_config ::
  "world \<Rightarrow> string \<Rightarrow> string \<Rightarrow> string \<Rightarrow> event list \<times> (abort + string \<times> string)" where
  "load_sheet_config w explicit_sheet_id explicit_sheet_tab sheet_config_path =
     (if sheet_config_path = [] then
        ([], Inr (explicit_sheet_id,
                  if explicit_sheet_tab = [] then ''Sheet1'' else explicit_sheet_tab))
      else case sheet_files w sheet_config_path of
        None \<Rightarrow>
          ([Stderr (''Warning: sheet config file not found: '' @ sheet_config_path)],
           Inr (explicit_sheet_id,
                if explicit_sheet_tab = [] then ''Sheet1'' else explicit_sheet_tab))
      | Some JsonInvalid \<Rightarrow> ([], Inl (Uncaught ''JSONDecodeError''))
      | Some (JsonDict config) \<Rightarrow>
          (let sid = (if explicit_sheet_id = []
                      then strip (case config ''sheet_id'' of None \<Rightarrow> '''' | Some v \<Rightarrow> v)
                      else explicit_sheet_id);
               tab = (if explicit_sheet_tab = []
                      then strip (case config ''sheet_tab'' of None \<Rightarrow> '''' | Some v \<Rightarrow> v)
                      else explicit_sheet_tab);
               warning = (if sid = [] \<and> tab = []
                          then [Stderr (''Warning: '' @ sheet_config_path
                                  @ '' is empty. Provide a sheet_id or sheet_tab, or pass flags explicitly.'')]
                          else [])
           in (warning, Inr (sid, if tab = [] then ''Sheet1'' else tab))))"

definition store_sheet_config :: "string \<Rightarrow> string \<Rightarrow> string \<Rightarrow> event list" where
  "store_sheet_config sheet_config_path sid tab =
     (if sheet_config_path = [] then []
      else [WriteJson sheet_config_path
              ((if sid = [] then [] else [(''sheet_id'', sid)])
               @ (if tab = [] then [] else [(''sheet_tab'', tab)]))])"

subsection \<open>fetch\_costs\<close>

text \<open>
  The \<^verbatim>\<open>while True\<close> loop, on the answers the service gives to the successive calls.
  Each round sends the request, with the token of the answer before when there is one,
  and adds the time periods of the answer to the results. The loop ends at the first
  answer whose token is missing or empty, or with the exception a call raises; when the
  answers given are used up and the last one still had a token, the loop is waiting.
  The requests sent are returned with the result.
\<close>

definition results_by_time :: "response \<Rightarrow> period list" where
  "results_by_time resp = (case ResultsByTime resp of None \<Rightarrow> [] | Some ps \<Rightarrow> ps)"

fun fetch_loop ::
  "request \<Rightarrow> string option \<Rightarrow> period list \<Rightarrow> (aws_error + response) list
     \<Rightarrow> request list \<times> (abort + period list)" where
  "fetch_loop rq next_token results [] = ([], Inl NoAnswer)"
| "fetch_loop rq next_token results (answer # answers) =
     (let rq' = (if truthy next_token then rq\<lparr>rq_NextPageToken := next_token\<rparr>
                 else rq\<lparr>rq_NextPageToken := None\<rparr>)
      in case answer of
           Inl e \<Rightarrow> ([rq'], Inl (Uncaught (error_name e)))
         | Inr resp \<Rightarrow>
             (let results' = results @ results_by_time resp
              in if truthy (NextPageToken resp)
                 then (let rest = fetch_loop rq' (NextPageToken resp) results' answers
                       in (rq' # fst rest, snd rest))
                 else ([rq'], Inr results')))"

definition fetch_costs ::
  "(aws_error + response) list \<Rightarrow> string \<Rightarrow> string \<Rightarrow> string \<Rightarrow> string
     \<Rightarrow> request list \<times> (abort + period list)" where
  "fetch_costs ce_client start_date end_date granularity group_by =
     fetch_loop
       \<lparr>rq_TimePeriod = (start_date, end_date),
        rq_Granularity = granularity,
        rq_Metrics = [''UnblendedCost''],
        rq_GroupBy = (if group_by = ''SERVICE'' then Some [(''DIMENSION'', ''SERVICE'')] else None),
        rq_NextPageToken = None\<rparr>
       None [] ce_client"

subsection \<open>process\_account\<close>

definition unblended :: "(string \<rightharpoonup> metric) option \<Rightarrow> metric" where
  "unblended metrics =
     (case metrics of
        None \<Rightarrow> \<lparr>Amount = None, Unit = None\<rparr>
      | Some d \<Rightarrow> (case d ''UnblendedCost'' of
                    None \<Rightarrow> \<lparr>Amount = None, Unit = None\<rparr>
                  | Some m \<Rightarrow> m))"

definition metric_amount :: "metric \<Rightarrow> string" where
  "metric_amount m = (case Amount m of None \<Rightarrow> ''0'' | Some a \<Rightarrow> a)"

definition metric_unit :: "metric \<Rightarrow> string" where
  "metric_unit m = (case Unit m of None \<Rightarrow> ''USD'' | Some u \<Rightarrow> u)"

definition period_rows ::
  "string \<Rightarrow> string \<Rightarrow> string \<Rightarrow> string \<Rightarrow> period \<Rightarrow> string list list" where
  "period_rows account_id account_name granularity group_by p =
     (let period_start = (case TimePeriod p of
                            None \<Rightarrow> ''''
                          | Some tp \<Rightarrow> (case Start tp of None \<Rightarrow> '''' | Some s \<Rightarrow> s));
          period_end = (case TimePeriod p of
                          None \<Rightarrow> ''''
                        | Some tp \<Rightarrow> (case End tp of None \<Rightarrow> '''' | Some s \<Rightarrow> s))
      in if group_by = ''SERVICE'' then
           map (\<lambda>g.
                  [account_id, account_name, period_start, period_end, granularity,
                   (case (case Keys g of None \<Rightarrow> [] | Some ks \<Rightarrow> ks) of
                      [] \<Rightarrow> ''''
                    | k # others \<Rightarrow> k),
                   metric_amount (unblended (Metrics g)),
                   metric_unit (unblended (Metrics g))])
               (case Groups p of None \<Rightarrow> [] | Some gs \<Rightarrow> gs)
         else
           [[account_id, account_name, period_start, period_end, granularity, '''',
             metric_amount (unblended (Total p)),
             metric_unit (unblended (Total p))]])"

definition process_account ::
  "world \<Rightarrow> account_config \<Rightarrow> string \<Rightarrow> string \<Rightarrow> string \<Rightarrow> string \<Rightarrow> string
     \<Rightarrow> event list \<times> (abort + string list list)" where
  "process_account w account rgn start_date end_date granularity group_by =
     (if truthy (aws_access_key_id account) \<and> truthy (aws_secret_access_key account) then
        (let info = get_account_info (iam_answer (aws w account)) (sts_answer (aws w account));
             account_id = fst info;
             account_name = snd info;
             fetched = fetch_costs (ce_answers (aws w account))
                         start_date end_date granularity group_by
         in case snd fetched of
              Inl a \<Rightarrow> ([], Inl a)
            | Inr results \<Rightarrow>
                (let rows = concat (map (period_rows account_id account_name granularity group_by)
                                      results)
                 in ([Stdout (''Fetched '' @ dec_digits (length rows) @ '' rows for account ''
                        @ (if account_id = [] then ''unknown'' else account_id)
                        @ '' ('' @ (if account_name = [] then ''no-alias'' else account_name)
                        @ '')'')],
                     Inr rows)))
      else ([Stderr ''Warning: Skipping account - missing credentials''], Inr []))"

subsection \<open>main of cost\_analyzer.py\<close>

fun write_accounts ::
  "world \<Rightarrow> analyzer_args \<Rightarrow> string \<Rightarrow> string \<Rightarrow> account_config list
     \<Rightarrow> event list \<times> (abort + nat)" where
  "write_accounts w args start_date end_date [] = ([], Inr 0)"
| "write_accounts w args start_date end_date (account # accounts) =
     (let processed = process_account w account (a_region args) start_date end_date
                        (a_granularity args) (a_group_by args)
      in case snd processed of
           Inl a \<Rightarrow> (fst processed, Inl a)
         | Inr rows \<Rightarrow>
             (let rest = write_accounts w args start_date end_date accounts
              in (fst processed @ map (WriteRow (a_output args)) rows @ fst rest,
                  case snd rest of Inl a \<Rightarrow> Inl a | Inr n \<Rightarrow> Inr (length rows + n))))"

definition skipped_message :: string where
  "skipped_message =
     ''Google Sheets upload skipped (missing key file). Provide --gcp-key or place key.json in the project directory.''"

text \<open>The part of \<^verbatim>\<open>main\<close> after the configuration is read and has accounts.\<close>

definition export_accounts ::
  "analyzer_args \<Rightarrow> world \<Rightarrow> string \<Rightarrow> string \<Rightarrow> string \<Rightarrow> string \<Rightarrow> account_config list
     \<Rightarrow> event list \<times> int option" where
  "export_accounts args w start_date end_date sid tab accounts =
     (let opened = [OpenWrite (a_output args),
                    WriteRow (a_output args)
                      [''account_id'', ''account_name'', ''period_start'', ''period_end'',
                       ''granularity'', ''service'', ''amount'', ''unit'']];
          written = write_accounts w args start_date end_date accounts
      in case snd written of
           Inl a \<Rightarrow> (opened @ fst written @ abort_events a, abort_code a)
         | Inr total_rows \<Rightarrow>
             (let has_key = (a_gcp_key args \<noteq> [] \<and> key_exists w (a_gcp_key args));
                  up = upload_csv_to_google_sheet w (a_output args) (a_gcp_key args) sid
                         (a_sheet_title args) tab (a_share_with args);
                  sid' = (if has_key then fst (snd up) else sid);
                  ev1 = opened @ fst written
                        @ [Stdout (''Wrote '' @ dec_digits total_rows @ '' rows to '' @ a_output args)]
                        @ (if has_key
                           then fst up @ [Stdout (''Uploaded to Google Sheet: '' @ snd (snd up))]
                           else [Stdout skipped_message])
                        @ [RunScript ''cost_by_service.py'']
              in if script_code w ''cost_by_service.py'' \<noteq> 0 then
                   (ev1 @ [Stderr ''Error: cost_by_service.py failed.''],
                    Some (script_code w ''cost_by_service.py''))
                 else if script_code w ''cost_by_account.py'' \<noteq> 0 then
                   (ev1 @ [RunScript ''cost_by_account.py'',
                           Stderr ''Error: cost_by_account.py failed.''],
                    Some (script_code w ''cost_by_account.py''))
                 else
                   (let logs = upload_csv_to_google_sheet w ''logs.csv'' (a_gcp_key args) sid'
                                 (a_sheet_title args) ''logs'' (a_share_with args)
                    in (ev1
                        @ [RunScript ''cost_by_account.py'',
                           OpenWrite ''logs.csv'',
                           WriteRow ''logs.csv''
                             [''run_started_at_utc'', ''run_finished_at_utc'', ''data_start_date'',
                              ''data_end_date'', ''granularity'', ''group_by'', ''rows_written''],
                           WriteRow ''logs.csv''
                             [started_at w, finished_at w, start_date, end_date,
                              a_granularity args, a_group_by args, dec_digits total_rows]]
                        @ (if has_key
                           then fst logs
                                @ [Stdout (''Uploaded logs to Google Sheet: '' @ snd (snd logs))]
                           else []),
                        Some 0))))"

definition cost_analyzer_main :: "analyzer_args \<Rightarrow> world \<Rightarrow> event list \<times> int option" where
  "cost_analyzer_main args w =
     (case default_dates w (a_start_date args) (a_end_date args) of
        Inl a \<Rightarrow> (abort_events a, abort_code a)
      | Inr dates \<Rightarrow>
          (let cfg = load_sheet_config w (a_sheet_id args) (a_sheet_tab args) (a_sheet_config args)
           in case snd cfg of
                Inl a \<Rightarrow> (fst cfg @ abort_events a, abort_code a)
              | Inr sheet \<Rightarrow>
                  (case load_aws_accounts w (a_config args) of
                     Inl a \<Rightarrow> (fst cfg @ abort_events a, abort_code a)
                   | Inr accounts \<Rightarrow>
                       if accounts = [] then
                         (fst cfg @ [Stderr ''Error: No AWS accounts configured in config file''],
                          Some 1)
                       else
                         (let exported = export_accounts args w (fst dates) (snd dates)
                                           (fst sheet) (snd sheet) accounts
                          in (fst cfg @ fst exported, snd exported)))))"

subsection \<open>main of cost\_by\_service.py\<close>

definition cost_by_service_main :: "service_args \<Rightarrow> world \<Rightarrow> event list \<times> int option" where
  "cost_by_service_main args w =
     (case load_costs (csv_rows w) (s_input args) of
        Inl a \<Rightarrow> (abort_events a, abort_code a)
      | Inr loaded \<Rightarrow>
          if fst loaded = [] then ([Stdout ''No cost data found to aggregate.''], Some 0)
          else
            (let ev1 = write_summary (s_output args) (fst loaded) (snd loaded)
                       @ [Stdout (''Wrote cost summary to '' @ s_output args)];
                 cfg = load_sheet_config w '''' (s_sheet_tab args) (s_sheet_config args)
             in case snd cfg of
                  Inl a \<Rightarrow> (ev1 @ fst cfg @ abort_events a, abort_code a)
                | Inr sheet \<Rightarrow>
                    if s_gcp_key args \<noteq> [] \<and> key_exists w (s_gcp_key args) then
                      (let up = upload_csv_to_google_sheet w (s_output args) (s_gcp_key args)
                                  (fst sheet) ''AWS Cost Analyzer'' (snd sheet) None
                       in (ev1 @ fst cfg @ fst up
                           @ store_sheet_config (s_sheet_config args) (fst (snd up)) (snd sheet)
                           @ [Stdout (''Uploaded to Google Sheet: '' @ snd (snd up))],
                           Some 0))
                    else (ev1 @ fst cfg @ [Stdout skipped_message], Some 0)))"

section \<open>Notions used in the properties\<close>

text \<open>Python's \<^verbatim>\<open>a <= b\<close> on floats, and a list of items whose amounts descend.\<close>

definition fle :: "pyfloat \<Rightarrow> pyfloat \<Rightarrow> bool" where
  "fle a b = (flt a b \<or> (a = b \<and> a \<noteq> NaN))"

definition descending :: "totals \<Rightarrow> bool" where
  "descending items = sorted_wrt (\<lambda>a b. fle (snd b) (snd a)) items"

text \<open>
  The unit as the words of the specification give it: the unit field of the last row
  whose unit field is not empty, or USD when no row has one.
\<close>

definition spec_unit :: "csv_row list \<Rightarrow> string" where
  "spec_unit rows =
     (let units = filter (\<lambda>u. u \<noteq> []) (map (\<lambda>row. py_or (row ''unit'') '''') rows)
      in if units = [] then ''USD'' else last units)"

text \<open>
  A run of the loop of \<^verbatim>\<open>load_costs\<close> is exact when every addition it makes is one of
  two finite floats whose sum is a float, so that no addition rounds or overflows.
\<close>

definition exact_row :: "totals \<times> string \<Rightarrow> csv_row \<Rightarrow> bool" where
  "exact_row st row =
     (case dict_get (fst st) (row_service row) (Fin 0) of
        Fin a \<Rightarrow> (case row_amount row of Fin b \<Rightarrow> representable (a + b) | _ \<Rightarrow> False)
      | _ \<Rightarrow> False)"

fun exact_from :: "totals \<times> string \<Rightarrow> csv_row list \<Rightarrow> bool" where
  "exact_from st [] = True"
| "exact_from st (row # rows) = (exact_row st row \<and> exact_from (load_row st row) rows)"

definition exact_rows :: "csv_row list \<Rightarrow> bool" where
  "exact_rows rows = exact_from ([], ''USD'') rows"

text \<open>The amount of a row and the total held for a service, as integers; 0 when not finite.\<close>

definition amount_units :: "csv_row \<Rightarrow> int" where
  "amount_units row = (case row_amount row of Fin b \<Rightarrow> b | _ \<Rightarrow> 0)"

definition held_units :: "totals \<Rightarrow> string \<Rightarrow> int" where
  "held_units d s = (case map_of d s of Some (Fin a) \<Rightarrow> a | _ \<Rightarrow> 0)"

section \<open>Arguments and surroundings of a run\<close>

text \<open>The defaults of the two argument parsers.\<close>

definition default_analyzer_args :: analyzer_args where
  "default_analyzer_args =
     \<lparr>a_config = ''aws_accounts.json'', a_region = ''us-east-1'',
      a_start_date = None, a_end_date = None,
      a_granularity = ''DAILY'', a_group_by = ''SERVICE'', a_output = ''aws_costs.csv'',
      a_gcp_key = ''key.json'', a_sheet_id = [], a_sheet_config = ''sheet_config.json'',
      a_sheet_tab = ''raw_data'', a_sheet_title = ''AWS Cost Analyzer'', a_share_with = None\<rparr>"

definition default_service_args :: service_args where
  "default_service_args =
     \<lparr>s_input = ''aws_costs.csv'', s_output = ''cost_by_service.csv'',
      s_gcp_key = ''key.json'', s_sheet_config = ''sheet_config.json'',
      s_sheet_tab = ''cost_by_service''\<rparr>"

text \<open>A directory without files, and services that refuse every call.\<close>

definition empty_world :: world where
  "empty_world =
     \<lparr>csv_rows = Map.empty, sheet_files = Map.empty, config_files = Map.empty,
      key_exists = (\<lambda>path. False),
      aws = (\<lambda>account. \<lparr>sts_answer = Inl ClientError, iam_answer = Inl ClientError,
                          ce_answers = [Inl ClientError]\<rparr>),
      new_sheet_id = ''sheet-1'', sheet_tabs = (\<lambda>sid. []), script_code = (\<lambda>name. 0),
      today = ''2024-01-31'', thirty_days_ago = ''2024-01-01'', fromisoformat = Map.empty,
      started_at = ''2024-01-31T00:00:00+00:00'', finished_at = ''2024-01-31T00:00:01+00:00''\<rparr>"

section \<open>Facts about floats\<close>

lemma bit_length_nonpos: "n \<le> 0 \<Longrightarrow> bit_length n = 0"
  by (simp add: bit_length.simps)

lemma bit_length_pos: "0 < n \<Longrightarrow> bit_length n = Suc (bit_length (n div 2))"
  by (simp add: bit_length.simps)

lemma bit_length_mult_pow2: "0 < m \<Longrightarrow> bit_length (m * 2 ^ e) = bit_length m + e"
proof (induction e)
  case 0
  then show ?case by simp
next
  case (Suc e)
  have pos: "0 < m * 2 ^ Suc e"
    using Suc.prems by simp
  have half: "(m * 2 ^ Suc e) div 2 = m * 2 ^ e"
    by simp
  have "bit_length (m * 2 ^ Suc e) = Suc (bit_length ((m * 2 ^ Suc e) div 2))"
    by (rule bit_length_pos [OF pos])
  also have "\<dots> = Suc (bit_length (m * 2 ^ e))"
    by (simp only: half)
  also have "\<dots> = bit_length m + Suc e"
    using Suc by simp
  finally show ?case .
qed

lemma bit_length_le: "n < 2 ^ k \<Longrightarrow> bit_length n \<le> k"
proof (induction k arbitrary: n)
  case 0
  then show ?case by (simp add: bit_length_nonpos)
next
  case (Suc k)
  show ?case
  proof (cases "n \<le> 0")
    case True
    then show ?thesis by (simp add: bit_length_nonpos)
  next
    case False
    then have pos: "0 < n" by simp
    have "n div 2 < 2 ^ k"
      using Suc.prems by simp
    then have "bit_length (n div 2) \<le> k"
      by (rule Suc.IH)
    then show ?thesis
      by (simp add: bit_length_pos [OF pos])
  qed
qed

lemma bit_length_less: "0 \<le> n \<Longrightarrow> n < 2 ^ bit_length n"
proof (induction n rule: bit_length.induct)
  case (1 n)
  show ?case
  proof (cases "n \<le> 0")
    case True
    with "1.prems" show ?thesis by (simp add: bit_length_nonpos)
  next
    case False
    then have pos: "0 < n" by simp
    have "n div 2 < 2 ^ bit_length (n div 2)"
      using "1.IH" False pos by simp
    then have "n < 2 * 2 ^ bit_length (n div 2)"
      by linarith
    then show ?thesis
      by (simp add: bit_length_pos [OF pos])
  qed
qed

lemma div_less_bound:
  fixes a b c :: int
  assumes "0 < c" and "a < b * c"
  shows "a div c < b"
proof (rule ccontr)
  assume "\<not> a div c < b"
  then have "b \<le> a div c" by simp
  then have "b * c \<le> (a div c) * c"
    using assms(1) by (simp add: mult_right_mono)
  moreover have "c * (a div c) + a mod c = a"
    by (rule mult_div_mod_eq)
  moreover have "0 \<le> a mod c"
    using assms(1) by (rule pos_mod_sign)
  ultimately show False
    using assms(2) by (simp add: mult.commute)
qed

lemma fround_exact:
  assumes "0 < den" and "0 \<le> k" and "representable k"
  shows "fround neg (k * den) den = Fin (if neg then - k else k)"
proof -
  have lim: "\<not> overflow_limit \<le> k"
    using assms(2,3) by (simp add: representable_def)
  have q0: "(k * den) div den = k"
    using assms(1) by simp
  define s where "s = bit_length k - 53"
  have dv: "2 ^ s dvd k"
  proof (cases "bit_length k \<le> 53")
    case True
    then show ?thesis by (simp add: s_def)
  next
    case False
    then show ?thesis
      using assms(2,3) by (simp add: representable_def s_def)
  qed
  then obtain c where c: "k = c * 2 ^ s"
    by (auto simp: dvd_def mult.commute)
  have dpos: "0 < den * (2::int) ^ s"
    using assms(1) by simp
  have eq: "k * den = c * (den * 2 ^ s)"
    by (simp add: c algebra_simps)
  have q: "(k * den) div (den * 2 ^ s) = c"
    unfolding eq using dpos assms(1) by simp
  have r: "(k * den) mod (den * 2 ^ s) = 0"
    unfolding eq by simp
  have n1: "\<not> den * 2 ^ s < 2 * 0"
    using dpos by linarith
  have n2: "2 * 0 \<noteq> den * 2 ^ s"
    using dpos by linarith
  have up: "\<not> (den * 2 ^ s < 2 * 0 \<or> 2 * 0 = den * 2 ^ s \<and> odd c)"
    using n1 n2 by blast
  show ?thesis
    unfolding fround_def Let_def q0 s_def [symmetric] q r
    by (simp only: up if_False c [symmetric] lim)
qed

lemma fadd_exact:
  assumes "representable (a + b)"
  shows "fadd (Fin a) (Fin b) = Fin (a + b)"
proof -
  have r: "representable \<bar>a + b\<bar>"
    using assms by (simp add: representable_def)
  have "fround (a + b < 0) (\<bar>a + b\<bar> * 1) 1 = Fin (if a + b < 0 then - \<bar>a + b\<bar> else \<bar>a + b\<bar>)"
    by (rule fround_exact) (use r in simp_all)
  then show ?thesis by simp
qed

lemma representable_small_mult:
  assumes "0 \<le> m" and "m < 2 ^ 53" and "m * 2 ^ s < overflow_limit"
  shows "representable (m * 2 ^ s)"
proof (cases "m = 0")
  case True
  then show ?thesis by (simp add: representable_def bit_length_nonpos overflow_limit_def)
next
  case False
  then have pos: "0 < m" using assms(1) by simp
  have ab: "\<bar>m * 2 ^ s\<bar> = m * 2 ^ s"
    using assms(1) by simp
  have bl: "bit_length (m * 2 ^ s) = bit_length m + s"
    by (rule bit_length_mult_pow2 [OF pos])
  have le: "bit_length m \<le> 53"
    by (rule bit_length_le [OF assms(2)])
  have "bit_length m + s - 53 \<le> s"
    using le by simp
  then have "(2::int) ^ (bit_length m + s - 53) dvd 2 ^ s"
    by (rule le_imp_power_dvd)
  then have dv: "(2::int) ^ (bit_length m + s - 53) dvd m * 2 ^ s"
    by (rule dvd_mult)
  show ?thesis
    unfolding representable_def ab bl using dv assms(3) by blast
qed

lemma representable_dyadic:
  assumes "\<bar>m\<bar> < 2 ^ 53" and "e \<le> 1074"
  shows "representable (m * 2 ^ (1074 - e))"
proof (cases "m = 0")
  case True
  then show ?thesis by (simp add: representable_def bit_length_nonpos overflow_limit_def)
next
  case False
  then have pos: "0 < \<bar>m\<bar>" by simp
  have ab: "\<bar>m * 2 ^ (1074 - e)\<bar> = \<bar>m\<bar> * 2 ^ (1074 - e)"
    by (simp add: abs_mult)
  have bl: "bit_length (\<bar>m\<bar> * 2 ^ (1074 - e)) = bit_length \<bar>m\<bar> + (1074 - e)"
    by (rule bit_length_mult_pow2 [OF pos])
  have le: "bit_length \<bar>m\<bar> \<le> 53"
    by (rule bit_length_le [OF assms(1)])
  have "bit_length \<bar>m\<bar> + (1074 - e) - 53 \<le> 1074 - e"
    using le by simp
  then have "(2::int) ^ (bit_length \<bar>m\<bar> + (1074 - e) - 53) dvd 2 ^ (1074 - e)"
    by (rule le_imp_power_dvd)
  then have dv: "(2::int) ^ (bit_length \<bar>m\<bar> + (1074 - e) - 53) dvd m * 2 ^ (1074 - e)"
    by (rule dvd_mult)
  have "\<bar>m\<bar> * 2 ^ (1074 - e) < 2 ^ 53 * 2 ^ (1074 - e)"
    using assms(1) by simp
  also have "\<dots> = (2::int) ^ (53 + (1074 - e))"
    by (simp add: power_add)
  also have "\<dots> \<le> overflow_limit"
    unfolding overflow_limit_def by (rule power_increasing) simp_all
  finally have lim: "\<bar>m\<bar> * 2 ^ (1074 - e) < overflow_limit" .
  show ?thesis
    unfolding representable_def ab bl using dv lim by blast
qed

lemma fadd_dyadic:
  assumes "\<bar>a + b\<bar> < 2 ^ 53" and "e \<le> 1074"
  shows "fadd (dyadic a e) (dyadic b e) = dyadic (a + b) e"
proof -
  have "representable ((a + b) * 2 ^ (1074 - e))"
    by (rule representable_dyadic [OF assms])
  then have "representable (a * 2 ^ (1074 - e) + b * 2 ^ (1074 - e))"
    by (simp add: algebra_simps)
  then show ?thesis
    unfolding dyadic_def by (simp only: fadd_exact) (simp add: algebra_simps)
qed

lemma dyadic_zero: "dyadic 0 e = Fin 0"
  by (simp add: dyadic_def)

lemma decimal_fraction_dyadic:
  assumes "k < 0" and "e \<le> 1074" and "0 \<le> m" and "m < 2 ^ 53"
      and "n * 2 ^ e = m * 10 ^ nat (- k)"
  shows "decimal_to_float neg n k = dyadic (if neg then - m else m) e"
proof -
  have rep: "representable (m * 2 ^ (1074 - e))"
    by (rule representable_dyadic) (use assms in simp_all)
  have nonneg: "0 \<le> m * (2::int) ^ (1074 - e)"
    using assms(3) by simp
  have "(2::int) ^ 1074 = 2 ^ e * 2 ^ (1074 - e)"
    using assms(2) by (simp flip: power_add)
  then have "n * 2 ^ 1074 = (n * 2 ^ e) * 2 ^ (1074 - e)"
    by (simp only: mult.assoc)
  also have "\<dots> = (m * 2 ^ (1074 - e)) * 10 ^ nat (- k)"
    by (simp only: assms(5) mult.assoc mult.commute mult.left_commute)
  finally have num: "n * 2 ^ 1074 = (m * 2 ^ (1074 - e)) * 10 ^ nat (- k)" .
  have "fround neg ((m * 2 ^ (1074 - e)) * 10 ^ nat (- k)) (10 ^ nat (- k))
          = Fin (if neg then - (m * 2 ^ (1074 - e)) else m * 2 ^ (1074 - e))"
    by (rule fround_exact [OF _ nonneg rep]) simp
  then show ?thesis
    unfolding decimal_to_float_def dyadic_def using assms(1) by (simp only: num) simp
qed

lemma decimal_integer_dyadic:
  assumes "0 \<le> k" and "0 \<le> n" and "n * 10 ^ nat k < 2 ^ 53"
  shows "decimal_to_float neg n k = dyadic (if neg then - (n * 10 ^ nat k) else n * 10 ^ nat k) 0"
proof -
  have nn: "0 \<le> n * 10 ^ nat k"
    using assms(2) by simp
  have rep: "representable (n * 10 ^ nat k * 2 ^ (1074 - 0))"
    by (rule representable_dyadic) (use assms(3) nn in simp_all)
  have nonneg: "0 \<le> n * 10 ^ nat k * (2::int) ^ 1074"
    using nn by simp
  have "fround neg ((n * 10 ^ nat k * 2 ^ 1074) * 1) 1
          = Fin (if neg then - (n * 10 ^ nat k * 2 ^ 1074) else n * 10 ^ nat k * 2 ^ 1074)"
    by (rule fround_exact [OF _ nonneg]) (use rep in simp_all)
  then show ?thesis
    unfolding decimal_to_float_def dyadic_def using assms(1) by simp
qed

lemma round_cents_exact:
  assumes "0 \<le> c" and "a * 100 = c * 2 ^ 1074"
  shows "round_cents a = nat c"
proof -
  have q: "(c * 2 ^ 1074) div 2 ^ 1074 = c"
    by simp
  have r: "(c * 2 ^ 1074) mod 2 ^ 1074 = 0"
    by simp
  have up: "\<not> ((2::int) ^ 1074 < 2 * 0 \<or> 2 * 0 = (2::int) ^ 1074 \<and> odd c)"
    by simp
  show ?thesis
    unfolding round_cents_def Let_def assms(2) q r by (simp only: up if_False)
qed

lemma format_2f_dyadic:
  assumes "e \<le> 1074" and "0 \<le> m" and "m * 100 = c * 2 ^ e"
  shows "format_2f (dyadic m e) = render_cents (nat c)"
proof -
  have "(2::int) ^ 1074 = 2 ^ e * 2 ^ (1074 - e)"
    using assms(1) by (simp flip: power_add)
  then have "c * 2 ^ 1074 = (c * 2 ^ e) * 2 ^ (1074 - e)"
    by (simp only: mult.assoc)
  also have "\<dots> = (m * 2 ^ (1074 - e)) * 100"
    by (simp only: assms(3) [symmetric] mult.assoc mult.commute mult.left_commute)
  finally have eq: "(m * 2 ^ (1074 - e)) * 100 = c * 2 ^ 1074"
    by simp
  have c0: "0 \<le> c"
  proof (rule ccontr)
    assume "\<not> 0 \<le> c"
    then have "c * 2 ^ e < 0"
      by (simp add: mult_less_0_iff)
    with assms(2,3) show False by simp
  qed
  have rc: "round_cents (m * 2 ^ (1074 - e)) = nat c"
    by (rule round_cents_exact [OF c0 eq])
  have ab: "\<bar>m * 2 ^ (1074 - e)\<bar> = m * 2 ^ (1074 - e)"
    using assms(2) by simp
  have nn: "\<not> m * 2 ^ (1074 - e) < 0"
    using assms(2) by (simp add: mult_less_0_iff)
  show ?thesis
    unfolding format_2f_def dyadic_def by (simp only: pyfloat.case ab rc nn if_False append_Nil)
qed

lemma format_nan: "format_2f NaN = ''nan''"
  by (simp add: format_2f_def)

lemma fround_is_double:
  assumes "0 \<le> num" and "0 < den"
  shows "is_double (fround neg num den)"
proof -
  define Q where "Q = num div den"
  define s where "s = bit_length Q - 53"
  define q where "q = num div (den * 2 ^ s)"
  define r where "r = num mod (den * 2 ^ s)"
  define q' where "q' = (if den * 2 ^ s < 2 * r \<or> (2 * r = den * 2 ^ s \<and> odd q) then q + 1 else q)"
  have Q0: "0 \<le> Q"
    using assms by (simp add: Q_def pos_imp_zdiv_nonneg_iff)
  have qQ: "q = Q div 2 ^ s"
    unfolding q_def Q_def using assms(2) by (simp add: zdiv_zmult2_eq)
  have q0: "0 \<le> q"
    unfolding qQ using Q0 by (simp add: pos_imp_zdiv_nonneg_iff)
  have Qlt: "Q < 2 ^ bit_length Q"
    by (rule bit_length_less [OF Q0])
  have "bit_length Q \<le> 53 + s"
    by (simp add: s_def)
  then have "(2::int) ^ bit_length Q \<le> 2 ^ (53 + s)"
    by (rule power_increasing) simp
  with Qlt have "Q < 2 ^ 53 * 2 ^ s"
    by (simp add: power_add)
  then have qlt: "q < 2 ^ 53"
    unfolding qQ by (intro div_less_bound) simp_all
  have q'0: "0 \<le> q'" and q'le: "q' \<le> 2 ^ 53"
    using q0 qlt by (auto simp: q'_def)
  have rep: "representable (q' * 2 ^ s)" if lim: "q' * 2 ^ s < overflow_limit"
  proof (cases "q' < 2 ^ 53")
    case True
    show ?thesis
      by (rule representable_small_mult [OF q'0 True lim])
  next
    case False
    with q'le have eq: "q' = 2 ^ 53" by simp
    have e: "q' * 2 ^ s = 2 ^ 52 * 2 ^ Suc s"
      by (simp add: eq)
    show ?thesis
      unfolding e
      by (rule representable_small_mult) (use lim e in simp_all)
  qed
  have shape: "fround neg num den =
      (if overflow_limit \<le> q' * 2 ^ s then (if neg then NInf else PInf)
       else Fin (if neg then - (q' * 2 ^ s) else q' * 2 ^ s))"
    by (simp add: fround_def Let_def Q_def s_def q_def r_def q'_def)
  have neg_rep: "representable (- k) = representable k" for k
    by (simp add: representable_def)
  show ?thesis
    unfolding shape using rep by (auto simp: neg_rep)
qed

lemma fadd_is_double: "is_double (fadd x y)"
proof (cases x)
  case (Fin a)
  show ?thesis
  proof (cases y)
    case (Fin b)
    show ?thesis
      unfolding \<open>x = Fin a\<close> Fin fadd.simps
      by (rule fround_is_double) simp_all
  qed (simp_all add: \<open>x = Fin a\<close>)
qed (cases y; simp)+

lemma fadd_zero_right: "is_double x \<Longrightarrow> fadd x (Fin 0) = x"
proof (cases x)
  case (Fin a)
  assume "is_double x"
  then have "representable (a + 0)"
    using Fin by simp
  then have "fadd (Fin a) (Fin 0) = Fin (a + 0)"
    by (rule fadd_exact)
  then show ?thesis
    using Fin by simp
qed simp_all

lemma flt_imp_fle: "flt a b \<Longrightarrow> fle a b"
  by (simp add: fle_def)

lemma not_flt_imp_fle: "a \<noteq> NaN \<Longrightarrow> b \<noteq> NaN \<Longrightarrow> \<not> flt a b \<Longrightarrow> fle b a"
  by (cases a; cases b) (auto simp: fle_def)

lemma fle_trans: "fle a b \<Longrightarrow> fle b c \<Longrightarrow> fle a c"
  by (cases a; cases b; cases c) (auto simp: fle_def)

section \<open>Facts about dictionaries and sorting\<close>

lemma map_of_dict_set: "map_of (dict_set d k v) = (map_of d)(k \<mapsto> v)"
  by (induction d k v rule: dict_set.induct) auto

lemma dict_get_dict_set:
  "dict_get (dict_set d k v) s dflt = (if s = k then v else dict_get d s dflt)"
  by (simp add: dict_get_def map_of_dict_set)

lemma dict_set_values: "snd ` set (dict_set d k v) \<subseteq> insert v (snd ` set d)"
  by (induction d k v rule: dict_set.induct) auto

lemma dict_set_nonempty: "dict_set d k v \<noteq> []"
  by (induction d k v rule: dict_set.induct) simp_all

lemma dict_set_keys: "fst ` set (dict_set d k v) = insert k (fst ` set d)"
  by (induction d k v rule: dict_set.induct) auto

lemma dict_get_double:
  "list_all (\<lambda>item. is_double (snd item)) d \<Longrightarrow> is_double (dict_get d s (Fin 0))"
proof -
  assume a: "list_all (\<lambda>item. is_double (snd item)) d"
  have z: "is_double (Fin 0)"
    by (simp add: representable_def bit_length_nonpos overflow_limit_def)
  show ?thesis
  proof (cases "map_of d s")
    case None
    then show ?thesis using z by (simp add: dict_get_def)
  next
    case (Some v)
    then have "(s, v) \<in> set d" by (rule map_of_SomeD)
    then have "is_double v" using a by (auto simp: list_all_iff)
    then show ?thesis using Some by (simp add: dict_get_def)
  qed
qed

lemma length_insert_desc: "length (insert_desc x ys) = Suc (length ys)"
  by (induction ys) simp_all

lemma length_sorted_desc: "length (sorted_desc items) = length items"
  by (induction items) (simp_all add: sorted_desc_def length_insert_desc)

lemma set_insert_desc: "set (insert_desc x ys) = insert x (set ys)"
  by (induction ys) auto

lemma mset_insert_desc: "mset (insert_desc x ys) = add_mset x (mset ys)"
  by (induction ys) simp_all

lemma mset_sorted_desc: "mset (sorted_desc items) = mset items"
  by (induction items) (simp_all add: sorted_desc_def mset_insert_desc)

lemma descending_insert_desc:
  assumes "descending ys" and "snd x \<noteq> NaN" and "list_all (\<lambda>item. snd item \<noteq> NaN) ys"
  shows "descending (insert_desc x ys)"
  using assms
proof (induction ys)
  case Nil
  then show ?case by (simp add: descending_def)
next
  case (Cons y ys)
  show ?case
  proof (cases "flt (snd x) (snd y)")
    case True
    have "descending (insert_desc x ys)"
      using Cons by (simp add: descending_def)
    then show ?thesis
      using True Cons.prems by (auto simp: descending_def set_insert_desc flt_imp_fle)
  next
    case False
    then have xy: "fle (snd y) (snd x)"
      using Cons.prems by (simp add: not_flt_imp_fle)
    have "fle (snd z) (snd x)" if "z \<in> set ys" for z
      using that Cons.prems(1) xy by (auto simp: descending_def intro: fle_trans)
    then show ?thesis
      using False xy Cons.prems(1) by (auto simp: descending_def)
  qed
qed

lemma descending_sorted_desc:
  "list_all (\<lambda>item. snd item \<noteq> NaN) items \<Longrightarrow> descending (sorted_desc items)"
proof (induction items)
  case Nil
  then show ?case by (simp add: sorted_desc_def descending_def)
next
  case (Cons x xs)
  have nn: "list_all (\<lambda>item. snd item \<noteq> NaN) (sorted_desc xs)"
    using Cons.prems mset_sorted_desc [of xs]
    by (metis list_all_iff list.pred_inject(2) set_mset_mset)
  have "descending (insert_desc x (sorted_desc xs))"
    by (rule descending_insert_desc) (use Cons nn in simp_all)
  then show ?case by (simp add: sorted_desc_def)
qed

section \<open>Properties of cost\_by\_service.py\<close>

subsection \<open>The loop of load\_costs\<close>

lemma load_rows_snoc: "load_rows (rows @ [row]) = load_row (load_rows rows) row"
  by (simp add: load_rows_def)

lemma load_row_nonempty: "fst (load_row st row) \<noteq> []"
  by (simp add: load_row_def Let_def dict_set_nonempty)

lemma load_rows_empty_iff: "fst (load_rows rows) = [] \<longleftrightarrow> rows = []"
proof (cases rows rule: rev_cases)
  case Nil
  then show ?thesis by (simp add: load_rows_def)
next
  case (snoc xs x)
  then show ?thesis
    by (simp add: load_rows_def load_row_nonempty)
qed

lemma load_rows_doubles: "list_all (\<lambda>item. is_double (snd item)) (fst (load_rows rows))"
proof (induction rows rule: rev_induct)
  case Nil
  then show ?case by (simp add: load_rows_def)
next
  case (snoc row rows)
  have "snd ` set (fst (load_row (load_rows rows) row))
          \<subseteq> insert (fadd (dict_get (fst (load_rows rows)) (row_service row) (Fin 0)) (row_amount row))
               (snd ` set (fst (load_rows rows)))"
    by (simp add: load_row_def Let_def dict_set_values)
  then show ?case
    using snoc fadd_is_double
    unfolding load_rows_snoc list_all_iff by fastforce
qed

lemma load_rows_unit_last:
  "snd (load_rows rows) =
     (let units = filter (\<lambda>u. u \<noteq> []) (map row_unit rows)
      in if units = [] then ''USD'' else last units)"
proof (induction rows rule: rev_induct)
  case Nil
  then show ?case by (simp add: load_rows_def)
next
  case (snoc row rows)
  then show ?case
    by (simp add: load_rows_snoc load_row_def Let_def)
qed

lemma load_rows_keys: "fst ` set (fst (load_rows rows)) = row_service ` set rows"
proof (induction rows rule: rev_induct)
  case Nil
  then show ?case by (simp add: load_rows_def)
next
  case (snoc row rows)
  then show ?case
    by (simp add: load_rows_snoc load_row_def Let_def dict_set_keys)
qed

lemma exact_totals:
  assumes "exact_from st rows"
  shows "map_of (fst (foldl load_row st rows)) s =
           (if s \<in> row_service ` set rows
            then Some (Fin (held_units (fst st) s
                            + sum_list (map amount_units (filter (\<lambda>r. row_service r = s) rows))))
            else map_of (fst st) s)"
  using assms
proof (induction rows arbitrary: st)
  case Nil
  then show ?case by simp
next
  case (Cons r rs)
  from Cons.prems have ex: "exact_row st r" and rest: "exact_from (load_row st r) rs"
    by simp_all
  from ex obtain a b where
    a: "dict_get (fst st) (row_service r) (Fin 0) = Fin a" and
    b: "row_amount r = Fin b" and
    rep: "representable (a + b)"
    by (auto simp: exact_row_def split: pyfloat.splits)
  have held: "held_units (fst st) (row_service r) = a"
    using a by (auto simp: dict_get_def held_units_def split: option.splits pyfloat.splits)
  have fa: "fadd (Fin a) (Fin b) = Fin (a + b)"
    by (rule fadd_exact [OF rep])
  have st': "fst (load_row st r) = dict_set (fst st) (row_service r) (Fin (a + b))"
    by (simp only: load_row_def Let_def a b fa fst_conv)
  have m: "map_of (fst (load_row st r)) = (map_of (fst st))(row_service r \<mapsto> Fin (a + b))"
    by (simp add: st' map_of_dict_set)
  have h': "held_units (fst (load_row st r)) s
              = (if s = row_service r then a + b else held_units (fst st) s)"
    by (simp add: held_units_def m)
  have amt: "amount_units r = b"
    by (simp add: amount_units_def b)
  have none: "sum_list (map amount_units (filter (\<lambda>r. row_service r = s) rs)) = 0"
    if "s \<notin> row_service ` set rs"
  proof -
    have "filter (\<lambda>r. row_service r = s) rs = []"
      using that by (auto simp: filter_empty_conv)
    then show ?thesis by simp
  qed
  show ?case
    using Cons.IH [OF rest, unfolded h' m] held amt none
    by (auto simp: algebra_simps)
qed

lemma exact_rows_totals:
  assumes "mset rows' = mset rows" and "exact_rows rows" and "exact_rows rows'"
  shows "map_of (fst (load_rows rows')) = map_of (fst (load_rows rows))"
proof
  fix s
  have sets: "set rows' = set rows"
    using assms(1) by (rule mset_eq_setD)
  have "mset (map amount_units (filter (\<lambda>r. row_service r = s) rows'))
          = mset (map amount_units (filter (\<lambda>r. row_service r = s) rows))"
    by (simp only: mset_map mset_filter assms(1))
  then have sums: "sum_list (map amount_units (filter (\<lambda>r. row_service r = s) rows'))
          = sum_list (map amount_units (filter (\<lambda>r. row_service r = s) rows))"
    by (metis sum_mset_sum_list)
  show "map_of (fst (load_rows rows')) s = map_of (fst (load_rows rows)) s"
    using exact_totals [of "([], ''USD'')" rows s] exact_totals [of "([], ''USD'')" rows' s] assms(2,3)
    by (simp add: load_rows_def exact_rows_def sets sums)
qed

subsection \<open>Amounts that are not numbers\<close>

text \<open>
  C3. A row whose amount text \<^verbatim>\<open>float\<close> rejects is read with the amount \<open>0.0\<close>, and
  reading the file does not fail, whatever the rows before and after it are: the loop
  goes on from the state the row leaves. In that state the total of every service, the
  row's own included, is the total held before the row (a service without total counting
  as \<open>0.0\<close>): the row adds zero.
\<close>

theorem load_costs_unparsable_amount:
  assumes "py_float (row_amount_str row) = None"
      and "fs p = Some (pre @ row # post)"
  shows "row_amount row = Fin 0
       \<and> load_costs fs p = Inr (foldl load_row (load_row (load_rows pre) row) post)
       \<and> dict_get (fst (load_row (load_rows pre) row)) s (Fin 0)
           = dict_get (fst (load_rows pre)) s (Fin 0)"
proof -
  have amt: "row_amount row = Fin 0"
    using assms(1) by (simp add: row_amount_def)
  have run: "load_rows (pre @ row # post) = foldl load_row (load_row (load_rows pre) row) post"
    by (simp add: load_rows_def)
  have "is_double (dict_get (fst (load_rows pre)) (row_service row) (Fin 0))"
    by (rule dict_get_double [OF load_rows_doubles])
  then have keep: "fadd (dict_get (fst (load_rows pre)) (row_service row) (Fin 0)) (Fin 0)
                     = dict_get (fst (load_rows pre)) (row_service row) (Fin 0)"
    by (rule fadd_zero_right)
  have "dict_get (fst (load_row (load_rows pre) row)) s (Fin 0)
          = dict_get (fst (load_rows pre)) s (Fin 0)"
    by (simp add: load_row_def Let_def amt dict_get_dict_set keep)
  then show ?thesis
    using amt assms(2) by (simp add: load_costs_def run)
qed

theorem load_costs_unparsable_amount_witness:
  "py_float (row_amount_str [''service'' \<mapsto> ''EC2'', ''amount'' \<mapsto> ''N/A'']) = None
   \<and> load_costs [''in.csv'' \<mapsto> [[''service'' \<mapsto> ''EC2'', ''amount'' \<mapsto> ''N/A'']]] ''in.csv''
       = Inr ([(''EC2'', Fin 0)], ''USD'')
   \<and> dict_get (fst (load_row (load_rows []) [''service'' \<mapsto> ''EC2'', ''amount'' \<mapsto> ''N/A'']))
         ''EC2'' (Fin 0)
       = Fin 0"
proof -
  let ?row = "[''service'' \<mapsto> ''EC2'', ''amount'' \<mapsto> ''N/A'']"
  have h: "py_float (row_amount_str ?row) = None"
    by code_simp
  have f: "[''in.csv'' \<mapsto> [?row]] ''in.csv'' = Some ([] @ ?row # [])"
    by simp
  have s: "row_service ?row = ''EC2''"
    by code_simp
  have u: "row_unit ?row = []"
    by code_simp
  have z: "fround False 0 1 = Fin 0"
    by code_simp
  have e: "load_rows [] = ([], ''USD'')"
    by (simp add: load_rows_def)
  have r: "row_amount ?row = Fin 0"
    using load_costs_unparsable_amount
      [where fs = "[''in.csv'' \<mapsto> [?row]]" and p = "''in.csv''" and pre = "[]" and post = "[]",
       OF h f]
    by simp
  have l: "load_row ([], ''USD'') ?row = ([(''EC2'', Fin 0)], ''USD'')"
    by (simp add: load_row_def Let_def s u r z dict_get_def)
  show ?thesis
    using h load_costs_unparsable_amount
      [where fs = "[''in.csv'' \<mapsto> [?row]]" and p = "''in.csv''" and pre = "[]" and post = "[]"
         and s = "''EC2''", OF h f]
    by (simp add: e l dict_get_def)
qed

subsection \<open>The example of the specification\<close>

lemma parse_10_50: "parse_float_literal ''10.50'' = Some (Decimal False 1050 (- 2))"
  by code_simp

lemma parse_4_50: "parse_float_literal ''4.50'' = Some (Decimal False 450 (- 2))"
  by code_simp

lemma parse_2_00: "parse_float_literal ''2.00'' = Some (Decimal False 200 (- 2))"
  by code_simp

lemma float_10_50: "py_float ''10.50'' = Some (dyadic 42 2)"
  using decimal_fraction_dyadic [of "- 2" 2 42 1050 False]
  by (simp add: py_float_def parse_10_50)

lemma float_4_50: "py_float ''4.50'' = Some (dyadic 18 2)"
  using decimal_fraction_dyadic [of "- 2" 2 18 450 False]
  by (simp add: py_float_def parse_4_50)

lemma float_2_00: "py_float ''2.00'' = Some (dyadic 8 2)"
  using decimal_fraction_dyadic [of "- 2" 2 8 200 False]
  by (simp add: py_float_def parse_2_00)

lemma render_1500: "render_cents 1500 = ''15.00''" by code_simp

lemma render_200: "render_cents 200 = ''2.00''" by code_simp

lemma example_row1: "row_service [''service'' \<mapsto> ''EC2'', ''amount'' \<mapsto> ''10.50'', ''unit'' \<mapsto> ''USD''] = ''EC2''
  \<and> row_amount_str [''service'' \<mapsto> ''EC2'', ''amount'' \<mapsto> ''10.50'', ''unit'' \<mapsto> ''USD''] = ''10.50''
  \<and> row_unit [''service'' \<mapsto> ''EC2'', ''amount'' \<mapsto> ''10.50'', ''unit'' \<mapsto> ''USD''] = ''USD''"
  by code_simp

lemma example_row2: "row_service [''service'' \<mapsto> ''EC2'', ''amount'' \<mapsto> ''4.50'', ''unit'' \<mapsto> ''USD''] = ''EC2''
  \<and> row_amount_str [''service'' \<mapsto> ''EC2'', ''amount'' \<mapsto> ''4.50'', ''unit'' \<mapsto> ''USD''] = ''4.50''
  \<and> row_unit [''service'' \<mapsto> ''EC2'', ''amount'' \<mapsto> ''4.50'', ''unit'' \<mapsto> ''USD''] = ''USD''"
  by code_simp

lemma example_row3: "row_service [''service'' \<mapsto> ''S3'', ''amount'' \<mapsto> ''2.00'', ''unit'' \<mapsto> ''USD''] = ''S3''
  \<and> row_amount_str [''service'' \<mapsto> ''S3'', ''amount'' \<mapsto> ''2.00'', ''unit'' \<mapsto> ''USD''] = ''2.00''
  \<and> row_unit [''service'' \<mapsto> ''S3'', ''amount'' \<mapsto> ''2.00'', ''unit'' \<mapsto> ''USD''] = ''USD''"
  by code_simp

lemma example_add1: "fadd (Fin 0) (dyadic 42 2) = dyadic 42 2"
  using fadd_dyadic [of 0 42 2] by (simp add: dyadic_zero)

lemma example_add2: "fadd (dyadic 42 2) (dyadic 18 2) = dyadic 15 0"
  using fadd_dyadic [of 42 18 2] by (simp add: dyadic_def)

lemma example_add3: "fadd (Fin 0) (dyadic 8 2) = dyadic 2 0"
  using fadd_dyadic [of 0 8 2] by (simp add: dyadic_zero) (simp add: dyadic_def)

lemma format_15: "format_2f (dyadic 15 0) = ''15.00''"
  using format_2f_dyadic [of 0 15 1500] by (simp add: render_1500)

lemma format_2: "format_2f (dyadic 2 0) = ''2.00''"
  using format_2f_dyadic [of 0 2 200] by (simp add: render_200)

lemma example_sorted: "sorted_desc [(''EC2'', dyadic 15 0), (''S3'', dyadic 2 0)] = [(''EC2'', dyadic 15 0), (''S3'', dyadic 2 0)]"
  by (simp add: sorted_desc_def dyadic_def)

lemma example_line0: "csv_writerow [''service'', ''total_amount'', ''unit''] = ''service,total_amount,unit'' @ [CHR 0x0D, CHR 0x0A]"
  by code_simp

lemma example_line1: "csv_writerow [''EC2'', ''$15.00'', ''USD''] = ''EC2,$15.00,USD'' @ [CHR 0x0D, CHR 0x0A]"
  by code_simp

lemma example_line2: "csv_writerow [''S3'', ''$2.00'', ''USD''] = ''S3,$2.00,USD'' @ [CHR 0x0D, CHR 0x0A]"
  by code_simp

text \<open>
  C4. The rows (EC2, 10.50), (EC2, 4.50), (S3, 2.00) with unit USD give the totals
  15.0 for EC2 and 2.0 for S3, and the summary file holds, after the header line, the
  line \<^verbatim>\<open>EC2,$15.00,USD\<close> and then the line \<^verbatim>\<open>S3,$2.00,USD\<close>: as written by
  \<^verbatim>\<open>write_summary\<close> from these totals, and after a run of \<^verbatim>\<open>main\<close> with the default
  arguments on an input file with these rows.
\<close>

theorem example_rows_summary:
  "load_costs
     [''aws_costs.csv'' \<mapsto>
        [[''service'' \<mapsto> ''EC2'', ''amount'' \<mapsto> ''10.50'', ''unit'' \<mapsto> ''USD''],
         [''service'' \<mapsto> ''EC2'', ''amount'' \<mapsto> ''4.50'', ''unit'' \<mapsto> ''USD''],
         [''service'' \<mapsto> ''S3'', ''amount'' \<mapsto> ''2.00'', ''unit'' \<mapsto> ''USD'']]]
     ''aws_costs.csv''
     = Inr ([(''EC2'', dyadic 15 0), (''S3'', dyadic 2 0)], ''USD'')
   \<and> file_text ''cost_by_service.csv''
       (write_summary ''cost_by_service.csv'' [(''EC2'', dyadic 15 0), (''S3'', dyadic 2 0)] ''USD'')
       []
     = ''service,total_amount,unit'' @ [CHR 0x0D, CHR 0x0A]
       @ ''EC2,$15.00,USD'' @ [CHR 0x0D, CHR 0x0A]
       @ ''S3,$2.00,USD'' @ [CHR 0x0D, CHR 0x0A]
   \<and> file_text ''cost_by_service.csv''
       (fst (cost_by_service_main default_service_args
          (empty_world\<lparr>csv_rows :=
             [''aws_costs.csv'' \<mapsto>
                [[''service'' \<mapsto> ''EC2'', ''amount'' \<mapsto> ''10.50'', ''unit'' \<mapsto> ''USD''],
                 [''service'' \<mapsto> ''EC2'', ''amount'' \<mapsto> ''4.50'', ''unit'' \<mapsto> ''USD''],
                 [''service'' \<mapsto> ''S3'', ''amount'' \<mapsto> ''2.00'', ''unit'' \<mapsto> ''USD'']]]\<rparr>)))
       []
     = ''service,total_amount,unit'' @ [CHR 0x0D, CHR 0x0A]
       @ ''EC2,$15.00,USD'' @ [CHR 0x0D, CHR 0x0A]
       @ ''S3,$2.00,USD'' @ [CHR 0x0D, CHR 0x0A]"
proof -
  let ?rows = "[[''service'' \<mapsto> ''EC2'', ''amount'' \<mapsto> ''10.50'', ''unit'' \<mapsto> ''USD''],
      [''service'' \<mapsto> ''EC2'', ''amount'' \<mapsto> ''4.50'', ''unit'' \<mapsto> ''USD''],
      [''service'' \<mapsto> ''S3'', ''amount'' \<mapsto> ''2.00'', ''unit'' \<mapsto> ''USD'']]"
  let ?text = "''service,total_amount,unit'' @ [CHR 0x0D, CHR 0x0A]
       @ ''EC2,$15.00,USD'' @ [CHR 0x0D, CHR 0x0A]
       @ ''S3,$2.00,USD'' @ [CHR 0x0D, CHR 0x0A]"
  have loaded: "load_rows ?rows = ([(''EC2'', dyadic 15 0), (''S3'', dyadic 2 0)], ''USD'')"
    unfolding load_rows_def
    by (simp add: load_row_def row_amount_def example_row1 example_row2 example_row3
          float_10_50 float_4_50 float_2_00 dict_get_def
          example_add1 example_add2 example_add3 Let_def)
  have events: "write_summary ''cost_by_service.csv'' [(''EC2'', dyadic 15 0), (''S3'', dyadic 2 0)] ''USD''
      = [OpenWrite ''cost_by_service.csv'',
         WriteRow ''cost_by_service.csv'' [''service'', ''total_amount'', ''unit''],
         WriteRow ''cost_by_service.csv'' [''EC2'', ''$15.00'', ''USD''],
         WriteRow ''cost_by_service.csv'' [''S3'', ''$2.00'', ''USD'']]"
    by (simp add: write_summary_def summary_rows_def summary_row_def example_sorted
          format_15 format_2)
  have written: "file_text ''cost_by_service.csv''
       (write_summary ''cost_by_service.csv'' [(''EC2'', dyadic 15 0), (''S3'', dyadic 2 0)] ''USD'')
       [] = ?text"
    by (simp add: events example_line0 example_line1 example_line2)
  have main: "fst (cost_by_service_main default_service_args
          (empty_world\<lparr>csv_rows := [''aws_costs.csv'' \<mapsto> ?rows]\<rparr>))
      = write_summary ''cost_by_service.csv'' [(''EC2'', dyadic 15 0), (''S3'', dyadic 2 0)] ''USD''
        @ [Stdout ''Wrote cost summary to cost_by_service.csv'',
           Stderr ''Warning: sheet config file not found: sheet_config.json'',
           Stdout skipped_message]"
    by (simp add: cost_by_service_main_def default_service_args_def load_costs_def loaded
          empty_world_def load_sheet_config_def Let_def)
  have whole: "file_text ''cost_by_service.csv''
       (fst (cost_by_service_main default_service_args
          (empty_world\<lparr>csv_rows := [''aws_costs.csv'' \<mapsto> ?rows]\<rparr>))) [] = ?text"
    unfolding main by (simp add: events example_line0 example_line1 example_line2)
  show ?thesis
    using written whole by (simp add: load_costs_def loaded)
qed

subsection \<open>The unit of the summary\<close>

text \<open>
  C9, as amended. \<^verbatim>\<open>load_costs\<close> returns one unit: the unit field, stripped of the
  white space around it, of the last row whose stripped unit field is not empty, or USD
  when there is no such row. \<^verbatim>\<open>write_summary\<close> puts the unit it is given into the
  third column of every row after the header.
\<close>

theorem one_unit_for_all_rows:
  "snd (load_rows rows) =
     (let units = filter (\<lambda>u. u \<noteq> []) (map row_unit rows)
      in if units = [] then ''USD'' else last units)
   \<and> map (\<lambda>r. r ! 2) (summary_rows totals unit) = ''unit'' # replicate (length totals) unit"
proof -
  have "map (\<lambda>r. r ! 2) (map (summary_row unit) items) = replicate (length items) unit" for items
    by (induction items) (simp_all add: summary_row_def Let_def)
  then show ?thesis
    by (simp add: load_rows_unit_last summary_rows_def length_sorted_desc)
qed

text \<open>
  C9 as stated speaks of the unit field itself. For a row whose unit field is
  \<^verbatim>\<open>" USD"\<close> the field is not empty and differs from what \<^verbatim>\<open>load_costs\<close> returns.
\<close>

theorem unit_field_counterexample:
  "snd (load_rows [[''service'' \<mapsto> ''EC2'', ''amount'' \<mapsto> ''1'', ''unit'' \<mapsto> '' USD'']]) = ''USD''
   \<and> spec_unit [[''service'' \<mapsto> ''EC2'', ''amount'' \<mapsto> ''1'', ''unit'' \<mapsto> '' USD'']] = '' USD''"
proof -
  have u: "row_unit [''service'' \<mapsto> ''EC2'', ''amount'' \<mapsto> ''1'', ''unit'' \<mapsto> '' USD''] = ''USD''"
    by code_simp
  have s: "spec_unit [[''service'' \<mapsto> ''EC2'', ''amount'' \<mapsto> ''1'', ''unit'' \<mapsto> '' USD'']] = '' USD''"
    by code_simp
  show ?thesis
    by (simp add: load_rows_unit_last u s)
qed

subsection \<open>An input without rows\<close>

text \<open>
  C10. When the input file exists and the reader yields no row, \<^verbatim>\<open>main\<close> of
  cost\_by\_service.py prints one message and returns: the run ends with code 0, and no
  file is written and no sheet is touched, since the print is its only event.
\<close>

theorem no_data_rows_exit_zero:
  assumes "csv_rows w (s_input args) = Some []"
  shows "cost_by_service_main args w = ([Stdout ''No cost data found to aggregate.''], Some 0)
       \<and> filter is_file_write (fst (cost_by_service_main args w)) = []
       \<and> filter is_sheet_call (fst (cost_by_service_main args w)) = []"
  using assms by (simp add: cost_by_service_main_def load_costs_def load_rows_def)

theorem no_data_rows_exit_zero_witness:
  "csv_rows (empty_world\<lparr>csv_rows := [''aws_costs.csv'' \<mapsto> []]\<rparr>) (s_input default_service_args)
     = Some []
   \<and> cost_by_service_main default_service_args
         (empty_world\<lparr>csv_rows := [''aws_costs.csv'' \<mapsto> []]\<rparr>)
     = ([Stdout ''No cost data found to aggregate.''], Some 0)
   \<and> filter is_file_write
         (fst (cost_by_service_main default_service_args
                 (empty_world\<lparr>csv_rows := [''aws_costs.csv'' \<mapsto> []]\<rparr>))) = []
   \<and> filter is_sheet_call
         (fst (cost_by_service_main default_service_args
                 (empty_world\<lparr>csv_rows := [''aws_costs.csv'' \<mapsto> []]\<rparr>))) = []"
proof -
  have h: "csv_rows (empty_world\<lparr>csv_rows := [''aws_costs.csv'' \<mapsto> []]\<rparr>)
             (s_input default_service_args) = Some []"
    by (simp add: default_service_args_def)
  show ?thesis
    using h no_data_rows_exit_zero [OF h] by simp
qed

subsection \<open>The order of the summary\<close>

text \<open>
  C2, as amended. \<^verbatim>\<open>write_summary\<close> opens the file and writes the header and then one
  row for each item of \<^verbatim>\<open>totals\<close>; when no total is NaN, the items are written in an
  order in which the amounts descend: each amount is greater than or equal to every
  amount after it.
\<close>

theorem summary_sorted_descending:
  assumes "list_all (\<lambda>item. snd item \<noteq> NaN) totals"
  shows "write_summary path totals unit
           = OpenWrite path # WriteRow path [''service'', ''total_amount'', ''unit'']
             # map (\<lambda>item. WriteRow path (summary_row unit item)) (sorted_desc totals)
       \<and> mset (sorted_desc totals) = mset totals
       \<and> descending (sorted_desc totals)"
  using assms
  by (simp add: write_summary_def summary_rows_def mset_sorted_desc descending_sorted_desc comp_def)

theorem summary_sorted_descending_witness:
  "list_all (\<lambda>item. snd item \<noteq> NaN) [(''S3'', dyadic 2 0), (''EC2'', dyadic 15 0)]
   \<and> sorted_desc [(''S3'', dyadic 2 0), (''EC2'', dyadic 15 0)]
       = [(''EC2'', dyadic 15 0), (''S3'', dyadic 2 0)]
   \<and> descending (sorted_desc [(''S3'', dyadic 2 0), (''EC2'', dyadic 15 0)])"
proof -
  have h: "list_all (\<lambda>item. snd item \<noteq> NaN) [(''S3'', dyadic 2 0), (''EC2'', dyadic 15 0)]"
    by (simp add: dyadic_def)
  have s: "sorted_desc [(''S3'', dyadic 2 0), (''EC2'', dyadic 15 0)]
             = [(''EC2'', dyadic 15 0), (''S3'', dyadic 2 0)]"
    by (simp add: sorted_desc_def dyadic_def)
  show ?thesis
    using h summary_sorted_descending
      [OF h, where path = "''cost_by_service.csv''" and unit = "''USD''"]
    by (simp add: s)
qed

lemma nan_rows:
  "row_service [''service'' \<mapsto> ''A'', ''amount'' \<mapsto> ''1''] = ''A''
   \<and> row_amount_str [''service'' \<mapsto> ''A'', ''amount'' \<mapsto> ''1''] = ''1''
   \<and> row_unit [''service'' \<mapsto> ''A'', ''amount'' \<mapsto> ''1''] = []
   \<and> row_service [''service'' \<mapsto> ''B'', ''amount'' \<mapsto> ''nan''] = ''B''
   \<and> row_amount_str [''service'' \<mapsto> ''B'', ''amount'' \<mapsto> ''nan''] = ''nan''
   \<and> row_unit [''service'' \<mapsto> ''B'', ''amount'' \<mapsto> ''nan''] = []
   \<and> row_service [''service'' \<mapsto> ''C'', ''amount'' \<mapsto> ''2''] = ''C''
   \<and> row_amount_str [''service'' \<mapsto> ''C'', ''amount'' \<mapsto> ''2''] = ''2''
   \<and> row_unit [''service'' \<mapsto> ''C'', ''amount'' \<mapsto> ''2''] = []"
  by code_simp

lemma float_nan: "py_float ''nan'' = Some NaN"
  by code_simp

lemma float_one: "py_float ''1'' = Some (dyadic 1 0)"
  by code_simp

lemma float_two: "py_float ''2'' = Some (dyadic 2 0)"
  by code_simp

lemma add_zero_one: "fadd (Fin 0) (dyadic 1 0) = dyadic 1 0"
  by code_simp

lemma add_zero_two: "fadd (Fin 0) (dyadic 2 0) = dyadic 2 0"
  using fadd_dyadic [of 0 2 0] by (simp add: dyadic_zero)

lemma render_100: "render_cents 100 = ''1.00''"
  by code_simp

lemma format_1: "format_2f (dyadic 1 0) = ''1.00''"
  using format_2f_dyadic [of 0 1 100] by (simp add: render_100)

text \<open>
  C2 as stated holds for every totals mapping. The amounts \<^verbatim>\<open>1\<close>, \<^verbatim>\<open>nan\<close>, \<^verbatim>\<open>2\<close> of
  three services give a NaN total between 1.0 and 2.0; every comparison with NaN is
  false, the sort leaves the items as they are, and the row of 1.00 is written before
  the row of 2.00.
\<close>

theorem nan_total_counterexample:
  "fst (load_rows [[''service'' \<mapsto> ''A'', ''amount'' \<mapsto> ''1''],
                   [''service'' \<mapsto> ''B'', ''amount'' \<mapsto> ''nan''],
                   [''service'' \<mapsto> ''C'', ''amount'' \<mapsto> ''2'']])
     = [(''A'', dyadic 1 0), (''B'', NaN), (''C'', dyadic 2 0)]
   \<and> tl (summary_rows [(''A'', dyadic 1 0), (''B'', NaN), (''C'', dyadic 2 0)] ''USD'')
     = [[''A'', ''$1.00'', ''USD''], [''B'', ''$nan'', ''USD''], [''C'', ''$2.00'', ''USD'']]
   \<and> \<not> descending (sorted_desc [(''A'', dyadic 1 0), (''B'', NaN), (''C'', dyadic 2 0)])"
proof -
  have loaded: "fst (load_rows [[''service'' \<mapsto> ''A'', ''amount'' \<mapsto> ''1''],
                   [''service'' \<mapsto> ''B'', ''amount'' \<mapsto> ''nan''],
                   [''service'' \<mapsto> ''C'', ''amount'' \<mapsto> ''2'']])
     = [(''A'', dyadic 1 0), (''B'', NaN), (''C'', dyadic 2 0)]"
    unfolding load_rows_def
    by (simp add: load_row_def row_amount_def nan_rows float_one float_nan float_two
          dict_get_def add_zero_one add_zero_two Let_def)
  have order: "sorted_desc [(''A'', dyadic 1 0), (''B'', NaN), (''C'', dyadic 2 0)]
                 = [(''A'', dyadic 1 0), (''B'', NaN), (''C'', dyadic 2 0)]"
    by (simp add: sorted_desc_def dyadic_def)
  have rows: "tl (summary_rows [(''A'', dyadic 1 0), (''B'', NaN), (''C'', dyadic 2 0)] ''USD'')
     = [[''A'', ''$1.00'', ''USD''], [''B'', ''$nan'', ''USD''], [''C'', ''$2.00'', ''USD'']]"
    by (simp add: summary_rows_def order summary_row_def format_1 format_2 format_nan)
  have "\<not> fle (dyadic 2 0) (dyadic 1 0)"
    by (simp add: fle_def dyadic_def)
  then have bad: "\<not> descending [(''A'', dyadic 1 0), (''B'', NaN), (''C'', dyadic 2 0)]"
    by (simp add: descending_def)
  show ?thesis
    using loaded rows bad by (simp only: order) simp
qed

subsection \<open>The order of the input rows\<close>

text \<open>
  C1, as amended. Two files with the same rows in different orders give totals for the
  same services, and the same total for every service provided both runs are exact: no
  addition rounds or overflows.
\<close>

theorem totals_order_independent_when_exact:
  assumes "mset rows' = mset rows"
  shows "set (map fst (fst (load_rows rows'))) = set (map fst (fst (load_rows rows)))
       \<and> (exact_rows rows \<and> exact_rows rows'
            \<longrightarrow> map_of (fst (load_rows rows')) = map_of (fst (load_rows rows)))"
proof -
  have "set rows' = set rows"
    using assms by (rule mset_eq_setD)
  then have "set (map fst (fst (load_rows rows'))) = set (map fst (fst (load_rows rows)))"
    by (simp add: load_rows_keys)
  then show ?thesis
    using exact_rows_totals [OF assms] by blast
qed

theorem totals_order_independent_when_exact_witness:
  "mset [[''service'' \<mapsto> ''EC2'', ''amount'' \<mapsto> ''4.50'', ''unit'' \<mapsto> ''USD''],
         [''service'' \<mapsto> ''EC2'', ''amount'' \<mapsto> ''10.50'', ''unit'' \<mapsto> ''USD'']]
     = mset [[''service'' \<mapsto> ''EC2'', ''amount'' \<mapsto> ''10.50'', ''unit'' \<mapsto> ''USD''],
             [''service'' \<mapsto> ''EC2'', ''amount'' \<mapsto> ''4.50'', ''unit'' \<mapsto> ''USD'']]
   \<and> exact_rows [[''service'' \<mapsto> ''EC2'', ''amount'' \<mapsto> ''10.50'', ''unit'' \<mapsto> ''USD''],
                 [''service'' \<mapsto> ''EC2'', ''amount'' \<mapsto> ''4.50'', ''unit'' \<mapsto> ''USD'']]
   \<and> exact_rows [[''service'' \<mapsto> ''EC2'', ''amount'' \<mapsto> ''4.50'', ''unit'' \<mapsto> ''USD''],
                 [''service'' \<mapsto> ''EC2'', ''amount'' \<mapsto> ''10.50'', ''unit'' \<mapsto> ''USD'']]
   \<and> map_of (fst (load_rows
         [[''service'' \<mapsto> ''EC2'', ''amount'' \<mapsto> ''4.50'', ''unit'' \<mapsto> ''USD''],
          [''service'' \<mapsto> ''EC2'', ''amount'' \<mapsto> ''10.50'', ''unit'' \<mapsto> ''USD'']]))
     = map_of (fst (load_rows
         [[''service'' \<mapsto> ''EC2'', ''amount'' \<mapsto> ''10.50'', ''unit'' \<mapsto> ''USD''],
          [''service'' \<mapsto> ''EC2'', ''amount'' \<mapsto> ''4.50'', ''unit'' \<mapsto> ''USD'']]))"
proof -
  let ?r1 = "[''service'' \<mapsto> ''EC2'', ''amount'' \<mapsto> ''10.50'', ''unit'' \<mapsto> ''USD'']"
  let ?r2 = "[''service'' \<mapsto> ''EC2'', ''amount'' \<mapsto> ''4.50'', ''unit'' \<mapsto> ''USD'']"
  have m: "mset [?r2, ?r1] = mset [?r1, ?r2]"
    by (simp add: add_mset_commute)
  have a1: "row_amount ?r1 = dyadic 42 2" and a2: "row_amount ?r2 = dyadic 18 2"
    by (simp_all add: row_amount_def example_row1 example_row2 float_10_50 float_4_50)
  have rep1: "representable (42 * 2 ^ (1074 - 2))" and rep2: "representable (18 * 2 ^ (1074 - 2))"
    and rep3: "representable (60 * 2 ^ (1074 - 2))"
    by (rule representable_dyadic; simp)+
  have l1: "load_row ([], ''USD'') ?r1 = ([(''EC2'', dyadic 42 2)], ''USD'')"
    by (simp add: load_row_def a1 example_row1 dict_get_def example_add1 Let_def)
  have add2: "fadd (Fin 0) (dyadic 18 2) = dyadic 18 2"
    using fadd_dyadic [of 0 18 2] by (simp add: dyadic_zero)
  have l2: "load_row ([], ''USD'') ?r2 = ([(''EC2'', dyadic 18 2)], ''USD'')"
    by (simp add: load_row_def a2 example_row2 dict_get_def add2 Let_def)
  have e1: "exact_rows [?r1, ?r2]"
    using rep1 rep3
    by (simp add: exact_rows_def l1 exact_row_def a1 a2 example_row1 example_row2 dict_get_def dyadic_def)
  have e2: "exact_rows [?r2, ?r1]"
    using rep2 rep3
    by (simp add: exact_rows_def l2 exact_row_def a1 a2 example_row1 example_row2 dict_get_def dyadic_def)
  show ?thesis
    using m e1 e2 totals_order_independent_when_exact [OF m] by simp
qed

lemma big_row:
  "row_service [''service'' \<mapsto> ''A'', ''amount'' \<mapsto> ''9007199254740992''] = ''A''
   \<and> row_amount_str [''service'' \<mapsto> ''A'', ''amount'' \<mapsto> ''9007199254740992''] = ''9007199254740992''
   \<and> row_unit [''service'' \<mapsto> ''A'', ''amount'' \<mapsto> ''9007199254740992''] = []"
  by code_simp

lemma negbig_row:
  "row_service [''service'' \<mapsto> ''A'', ''amount'' \<mapsto> ''-9007199254740992''] = ''A''
   \<and> row_amount_str [''service'' \<mapsto> ''A'', ''amount'' \<mapsto> ''-9007199254740992''] = ''-9007199254740992''
   \<and> row_unit [''service'' \<mapsto> ''A'', ''amount'' \<mapsto> ''-9007199254740992''] = []"
  by code_simp

lemma one_row:
  "row_service [''service'' \<mapsto> ''A'', ''amount'' \<mapsto> ''1''] = ''A''
   \<and> row_amount_str [''service'' \<mapsto> ''A'', ''amount'' \<mapsto> ''1''] = ''1''
   \<and> row_unit [''service'' \<mapsto> ''A'', ''amount'' \<mapsto> ''1''] = []"
  by code_simp

lemma float_big: "py_float ''9007199254740992'' = Some (dyadic 9007199254740992 0)"
  by code_simp

lemma float_negbig: "py_float ''-9007199254740992'' = Some (dyadic (- 9007199254740992) 0)"
  by code_simp

lemma add_zero_big: "fadd (Fin 0) (dyadic 9007199254740992 0) = dyadic 9007199254740992 0"
  by code_simp

lemma add_big_one: "fadd (dyadic 9007199254740992 0) (dyadic 1 0) = dyadic 9007199254740992 0"
  by code_simp

lemma add_big_negbig: "fadd (dyadic 9007199254740992 0) (dyadic (- 9007199254740992) 0) = Fin 0"
  by code_simp

text \<open>
  C1 as stated holds for every order of the rows. The amounts \<open>2\<^sup>5\<^sup>3\<close>, \<open>1\<close> and \<open>-2\<^sup>5\<^sup>3\<close>
  of one service give the total 0.0 in this order, since \<open>2\<^sup>5\<^sup>3 + 1\<close> rounds to
  \<open>2\<^sup>5\<^sup>3\<close>, and the total 1.0 when the 1 comes last.
\<close>

theorem rounding_order_counterexample:
  "mset [[''service'' \<mapsto> ''A'', ''amount'' \<mapsto> ''9007199254740992''],
         [''service'' \<mapsto> ''A'', ''amount'' \<mapsto> ''-9007199254740992''],
         [''service'' \<mapsto> ''A'', ''amount'' \<mapsto> ''1'']]
     = mset [[''service'' \<mapsto> ''A'', ''amount'' \<mapsto> ''9007199254740992''],
             [''service'' \<mapsto> ''A'', ''amount'' \<mapsto> ''1''],
             [''service'' \<mapsto> ''A'', ''amount'' \<mapsto> ''-9007199254740992'']]
   \<and> fst (load_rows [[''service'' \<mapsto> ''A'', ''amount'' \<mapsto> ''9007199254740992''],
                     [''service'' \<mapsto> ''A'', ''amount'' \<mapsto> ''1''],
                     [''service'' \<mapsto> ''A'', ''amount'' \<mapsto> ''-9007199254740992'']])
     = [(''A'', Fin 0)]
   \<and> fst (load_rows [[''service'' \<mapsto> ''A'', ''amount'' \<mapsto> ''9007199254740992''],
                     [''service'' \<mapsto> ''A'', ''amount'' \<mapsto> ''-9007199254740992''],
                     [''service'' \<mapsto> ''A'', ''amount'' \<mapsto> ''1'']])
     = [(''A'', dyadic 1 0)]
   \<and> Fin 0 \<noteq> dyadic 1 0"
proof -
  have one: "fst (load_rows [[''service'' \<mapsto> ''A'', ''amount'' \<mapsto> ''9007199254740992''],
                     [''service'' \<mapsto> ''A'', ''amount'' \<mapsto> ''1''],
                     [''service'' \<mapsto> ''A'', ''amount'' \<mapsto> ''-9007199254740992'']])
     = [(''A'', Fin 0)]"
    unfolding load_rows_def
    by (simp add: load_row_def row_amount_def big_row negbig_row one_row
          float_big float_negbig float_one dict_get_def
          add_zero_big add_big_one add_big_negbig Let_def)
  have two: "fst (load_rows [[''service'' \<mapsto> ''A'', ''amount'' \<mapsto> ''9007199254740992''],
                     [''service'' \<mapsto> ''A'', ''amount'' \<mapsto> ''-9007199254740992''],
                     [''service'' \<mapsto> ''A'', ''amount'' \<mapsto> ''1'']])
     = [(''A'', dyadic 1 0)]"
    unfolding load_rows_def
    by (simp add: load_row_def row_amount_def big_row negbig_row one_row
          float_big float_negbig float_one dict_get_def
          add_zero_big add_big_negbig add_zero_one Let_def)
  show ?thesis
    by (simp only: one two) (simp add: dyadic_def add_mset_commute)
qed

section \<open>Properties of cost\_analyzer.py\<close>

text \<open>
  C5. When the configuration file yields no account, \<^verbatim>\<open>main\<close> of cost\_analyzer.py
  ends with exit code 1, and no event of the run opens or writes a file: whether the run
  stops at the dates, at the sheet configuration or at the empty account list, it stops
  before the output file is opened.
\<close>

theorem no_accounts_exit_nonzero:
  assumes "load_aws_accounts w (a_config args) = Inr []"
  shows "snd (cost_analyzer_main args w) = Some 1
       \<and> filter is_file_write (fst (cost_analyzer_main args w)) = []"
proof -
  have dd: "default_dates w s e = Inl a \<Longrightarrow> a = Uncaught ''ValueError''" for s e a
    by (auto simp: default_dates_def split: if_splits option.splits)
  have lc: "snd (load_sheet_config w i t' c) = Inl a \<Longrightarrow> a = Uncaught ''JSONDecodeError''" for i t' c a
    by (auto simp: load_sheet_config_def Let_def split: if_splits option.splits json_file.splits)
  have ev: "filter is_file_write (fst (load_sheet_config w i t' c)) = []" for i t' c
    by (auto simp: load_sheet_config_def Let_def split: if_splits option.splits json_file.splits)
  show ?thesis
    using assms
    by (auto simp: cost_analyzer_main_def Let_def ev split: sum.splits dest!: dd lc)
qed

theorem no_accounts_exit_nonzero_witness:
  "load_aws_accounts (empty_world\<lparr>config_files := [''aws_accounts.json'' \<mapsto> AccountsJson (Some [])]\<rparr>)
     (a_config default_analyzer_args) = Inr []
   \<and> snd (cost_analyzer_main default_analyzer_args
          (empty_world\<lparr>config_files := [''aws_accounts.json'' \<mapsto> AccountsJson (Some [])]\<rparr>))
       = Some 1
   \<and> filter is_file_write
         (fst (cost_analyzer_main default_analyzer_args
            (empty_world\<lparr>config_files := [''aws_accounts.json'' \<mapsto> AccountsJson (Some [])]\<rparr>)))
       = []"
proof -
  have h: "load_aws_accounts
             (empty_world\<lparr>config_files := [''aws_accounts.json'' \<mapsto> AccountsJson (Some [])]\<rparr>)
             (a_config default_analyzer_args) = Inr []"
    by (simp add: load_aws_accounts_def default_analyzer_args_def)
  show ?thesis
    using h no_accounts_exit_nonzero [OF h] by simp
qed

text \<open>
  C6. In the rows \<^verbatim>\<open>process_account\<close> makes of a time period, a metric without amount
  gives the amount \<^verbatim>\<open>0\<close> and a metric without unit gives the unit \<^verbatim>\<open>USD\<close>, and an
  amount or unit that is there is written as it is. Grouped by service, the period has
  one row for each of its groups, and none when it has no \<^verbatim>\<open>Groups\<close> entry; the row of
  the \<open>i\<close>-th group takes the metric of that group. Otherwise the period has one row,
  which takes the metric of \<^verbatim>\<open>Total\<close>, whatever groups the period has or lacks. The
  metric is the \<^verbatim>\<open>UnblendedCost\<close> entry, and has neither amount nor unit when that
  entry, or the \<^verbatim>\<open>Metrics\<close> or \<^verbatim>\<open>Total\<close> entry holding it, is missing.
\<close>

theorem missing_amount_and_unit_defaults:
  "(Groups p = Some gs \<and> i < length gs \<longrightarrow>
      length (period_rows a n g ''SERVICE'' p) = length gs
      \<and> (Amount (unblended (Metrics (gs ! i))) = None
            \<longrightarrow> period_rows a n g ''SERVICE'' p ! i ! 6 = ''0'')
      \<and> (Unit (unblended (Metrics (gs ! i))) = None
            \<longrightarrow> period_rows a n g ''SERVICE'' p ! i ! 7 = ''USD'')
      \<and> (Amount (unblended (Metrics (gs ! i))) = Some x
            \<longrightarrow> period_rows a n g ''SERVICE'' p ! i ! 6 = x)
      \<and> (Unit (unblended (Metrics (gs ! i))) = Some u
            \<longrightarrow> period_rows a n g ''SERVICE'' p ! i ! 7 = u))
   \<and> (Groups p = None \<longrightarrow> period_rows a n g ''SERVICE'' p = [])
   \<and> (gb \<noteq> ''SERVICE'' \<longrightarrow>
      length (period_rows a n g gb p) = 1
      \<and> (Amount (unblended (Total p)) = None \<longrightarrow> period_rows a n g gb p ! 0 ! 6 = ''0'')
      \<and> (Unit (unblended (Total p)) = None \<longrightarrow> period_rows a n g gb p ! 0 ! 7 = ''USD'')
      \<and> (Amount (unblended (Total p)) = Some x \<longrightarrow> period_rows a n g gb p ! 0 ! 6 = x)
      \<and> (Unit (unblended (Total p)) = Some u \<longrightarrow> period_rows a n g gb p ! 0 ! 7 = u))
   \<and> unblended None = \<lparr>Amount = None, Unit = None\<rparr>
   \<and> (d ''UnblendedCost'' = None \<longrightarrow> unblended (Some d) = \<lparr>Amount = None, Unit = None\<rparr>)
   \<and> (d ''UnblendedCost'' = Some m \<longrightarrow> unblended (Some d) = m)"
  by (simp add: period_rows_def Let_def metric_amount_def metric_unit_def unblended_def)

theorem missing_amount_and_unit_defaults_witness:
  "period_rows ''123456789012'' ''prod'' ''DAILY'' ''SERVICE''
     \<lparr>TimePeriod = Some \<lparr>Start = Some ''2024-01-01'', End = Some ''2024-01-02''\<rparr>,
      Groups = Some [\<lparr>Keys = Some [''Amazon S3''], Metrics = None\<rparr>],
      Total = None\<rparr> ! 0 ! 6 = ''0''
   \<and> period_rows ''123456789012'' ''prod'' ''DAILY'' ''SERVICE''
     \<lparr>TimePeriod = Some \<lparr>Start = Some ''2024-01-01'', End = Some ''2024-01-02''\<rparr>,
      Groups = Some [\<lparr>Keys = Some [''Amazon S3''], Metrics = None\<rparr>],
      Total = None\<rparr> ! 0 ! 7 = ''USD''
   \<and> length (period_rows ''123456789012'' ''prod'' ''MONTHLY'' ''NONE''
        \<lparr>TimePeriod = Some \<lparr>Start = Some ''2024-01-01'', End = Some ''2024-02-01''\<rparr>,
         Groups = None, Total = None\<rparr>) = 1
   \<and> period_rows ''123456789012'' ''prod'' ''MONTHLY'' ''NONE''
     \<lparr>TimePeriod = Some \<lparr>Start = Some ''2024-01-01'', End = Some ''2024-02-01''\<rparr>,
      Groups = None, Total = None\<rparr> ! 0 ! 6 = ''0''
   \<and> period_rows ''123456789012'' ''prod'' ''MONTHLY'' ''NONE''
     \<lparr>TimePeriod = Some \<lparr>Start = Some ''2024-01-01'', End = Some ''2024-02-01''\<rparr>,
      Groups = None, Total = None\<rparr> ! 0 ! 7 = ''USD''
   \<and> period_rows ''123456789012'' ''prod'' ''MONTHLY'' ''NONE''
     \<lparr>TimePeriod = Some \<lparr>Start = Some ''2024-01-01'', End = Some ''2024-02-01''\<rparr>,
      Groups = Some [],
      Total = Some [''UnblendedCost'' \<mapsto> \<lparr>Amount = Some ''12.50'', Unit = None\<rparr>]\<rparr> ! 0 ! 6
       = ''12.50''
   \<and> period_rows ''123456789012'' ''prod'' ''MONTHLY'' ''NONE''
     \<lparr>TimePeriod = Some \<lparr>Start = Some ''2024-01-01'', End = Some ''2024-02-01''\<rparr>,
      Groups = Some [],
      Total = Some [''UnblendedCost'' \<mapsto> \<lparr>Amount = Some ''12.50'', Unit = None\<rparr>]\<rparr> ! 0 ! 7
       = ''USD''"
proof -
  let ?grouped = "\<lparr>TimePeriod = Some \<lparr>Start = Some ''2024-01-01'', End = Some ''2024-01-02''\<rparr>,
      Groups = Some [\<lparr>Keys = Some [''Amazon S3''], Metrics = None\<rparr>],
      Total = None\<rparr>"
  let ?bare = "\<lparr>TimePeriod = Some \<lparr>Start = Some ''2024-01-01'', End = Some ''2024-02-01''\<rparr>,
      Groups = None, Total = None\<rparr>"
  let ?total = "\<lparr>TimePeriod = Some \<lparr>Start = Some ''2024-01-01'', End = Some ''2024-02-01''\<rparr>,
      Groups = Some [],
      Total = Some [''UnblendedCost'' \<mapsto> \<lparr>Amount = Some ''12.50'', Unit = None\<rparr>]\<rparr>"
  have none: "unblended None = \<lparr>Amount = None, Unit = None\<rparr>"
    using missing_amount_and_unit_defaults by blast
  have some: "unblended (Some [''UnblendedCost'' \<mapsto> \<lparr>Amount = Some ''12.50'', Unit = None\<rparr>])
                = \<lparr>Amount = Some ''12.50'', Unit = None\<rparr>"
    using missing_amount_and_unit_defaults
      [where d = "[''UnblendedCost'' \<mapsto> \<lparr>Amount = Some ''12.50'', Unit = None\<rparr>]"
         and m = "\<lparr>Amount = Some ''12.50'', Unit = None\<rparr>"]
    by simp
  show ?thesis
    using missing_amount_and_unit_defaults
      [where p = ?grouped and gs = "[\<lparr>Keys = Some [''Amazon S3''], Metrics = None\<rparr>]"
         and i = 0 and a = "''123456789012''" and n = "''prod''" and g = "''DAILY''"
         and gb = "''SERVICE''"]
      missing_amount_and_unit_defaults
      [where p = ?bare and a = "''123456789012''" and n = "''prod''" and g = "''MONTHLY''"
         and gb = "''NONE''"]
      missing_amount_and_unit_defaults
      [where p = ?total and a = "''123456789012''" and n = "''prod''" and g = "''MONTHLY''"
         and gb = "''NONE''" and x = "''12.50''"]
    by (simp add: none some)
qed

text \<open>
  C7. \<^verbatim>\<open>get_account_info\<close> gives the empty account id when the identity call fails and
  the empty account name when the alias listing fails, whatever the other call answers.
  With both calls failing, an account with credentials whose costs are fetched yields its
  rows, with empty id and name: the failed lookup does not end the run.
\<close>

theorem get_account_info_swallows_failures:
  assumes "truthy (aws_access_key_id account)" and "truthy (aws_secret_access_key account)"
      and "sts_answer (aws w account) = Inl e1" and "iam_answer (aws w account) = Inl e2"
      and "snd (fetch_costs (ce_answers (aws w account)) sd ed g gb) = Inr results"
  shows "fst (get_account_info iam (Inl e)) = ''''
       \<and> snd (get_account_info (Inl e) sts) = ''''
       \<and> snd (process_account w account rgn sd ed g gb)
           = Inr (concat (map (period_rows '''' '''' g gb) results))"
  using assms by (simp add: get_account_info_def process_account_def Let_def)

theorem get_account_info_swallows_failures_witness:
  "truthy (aws_access_key_id \<lparr>aws_access_key_id = Some ''AKIA'', aws_secret_access_key = Some ''secret'', region = None\<rparr>)
   \<and> sts_answer
         (aws (empty_world\<lparr>aws := (\<lambda>account.
                   \<lparr>sts_answer = Inl ClientError, iam_answer = Inl BotoCoreError,
                    ce_answers = [Inr \<lparr>ResultsByTime = Some [\<lparr>TimePeriod = None, Groups = None, Total = None\<rparr>],
                                        NextPageToken = None\<rparr>]\<rparr>)\<rparr>)
            \<lparr>aws_access_key_id = Some ''AKIA'', aws_secret_access_key = Some ''secret'', region = None\<rparr>)
       = Inl ClientError
   \<and> snd (process_account
          (empty_world\<lparr>aws := (\<lambda>account.
                   \<lparr>sts_answer = Inl ClientError, iam_answer = Inl BotoCoreError,
                    ce_answers = [Inr \<lparr>ResultsByTime = Some [\<lparr>TimePeriod = None, Groups = None, Total = None\<rparr>],
                                        NextPageToken = None\<rparr>]\<rparr>)\<rparr>)
          \<lparr>aws_access_key_id = Some ''AKIA'', aws_secret_access_key = Some ''secret'', region = None\<rparr>
          ''us-east-1'' ''2024-01-01'' ''2024-01-31'' ''MONTHLY'' ''NONE'')
       = Inr [['''', '''', '''', '''', ''MONTHLY'', '''', ''0'', ''USD'']]"
proof -
  let ?w = "empty_world\<lparr>aws := (\<lambda>account.
                   \<lparr>sts_answer = Inl ClientError, iam_answer = Inl BotoCoreError,
                    ce_answers = [Inr \<lparr>ResultsByTime = Some [\<lparr>TimePeriod = None, Groups = None, Total = None\<rparr>],
                                        NextPageToken = None\<rparr>]\<rparr>)\<rparr>"
  let ?acc = "\<lparr>aws_access_key_id = Some ''AKIA'', aws_secret_access_key = Some ''secret'', region = None\<rparr>"
  have k: "truthy (aws_access_key_id ?acc)" and s: "truthy (aws_secret_access_key ?acc)"
    by (simp_all add: truthy_def)
  have a1: "sts_answer (aws ?w ?acc) = Inl ClientError" and a2: "iam_answer (aws ?w ?acc) = Inl BotoCoreError"
    by simp_all
  have f: "snd (fetch_costs (ce_answers (aws ?w ?acc)) ''2024-01-01'' ''2024-01-31'' ''MONTHLY'' ''NONE'')
             = Inr [\<lparr>TimePeriod = None, Groups = None, Total = None\<rparr>]"
    by (simp add: fetch_costs_def truthy_def results_by_time_def Let_def)
  have r: "period_rows '''' '''' ''MONTHLY'' ''NONE'' \<lparr>TimePeriod = None, Groups = None, Total = None\<rparr>
             = [['''', '''', '''', '''', ''MONTHLY'', '''', ''0'', ''USD'']]"
    by (simp add: period_rows_def unblended_def metric_amount_def metric_unit_def)
  show ?thesis
    using k a1 get_account_info_swallows_failures [OF k s a1 a2 f, where rgn = "''us-east-1''"]
    by (simp add: r)
qed

lemma fetch_loop_pages:
  assumes "list_all (\<lambda>p. truthy (NextPageToken p)) init" and "\<not> truthy (NextPageToken last_page)"
  shows "fetch_loop rq tok results (map Inr (init @ [last_page]) @ unused)
       = (map (\<lambda>t. rq\<lparr>rq_NextPageToken := t\<rparr>)
            ((if truthy tok then tok else None) # map NextPageToken init),
          Inr (results @ concat (map results_by_time (init @ [last_page]))))"
  using assms
proof (induction init arbitrary: rq tok results)
  case Nil
  then show ?case by (simp add: Let_def)
next
  case (Cons p ps)
  then show ?case by (simp add: Let_def)
qed

text \<open>
  C8. When the service answers with pages of which all but the last carry a token,
  \<^verbatim>\<open>fetch_costs\<close> returns the time periods of all pages in page order, and it has sent
  one request per page: the first without token, each further one with the token of the
  page before. It stops at the page without token, whatever the service would answer to
  a further call. A missing token and an empty one both end the loop.
\<close>

theorem fetch_costs_follows_tokens:
  assumes "list_all (\<lambda>p. truthy (NextPageToken p)) init" and "\<not> truthy (NextPageToken last_page)"
  shows "snd (fetch_costs (map Inr (init @ [last_page]) @ unused) sd ed g gb)
           = Inr (concat (map results_by_time (init @ [last_page])))
       \<and> map rq_NextPageToken
           (fst (fetch_costs (map Inr (init @ [last_page]) @ unused) sd ed g gb))
           = None # map NextPageToken init"
  using fetch_loop_pages [OF assms]
  by (simp add: fetch_costs_def truthy_def comp_def)

theorem fetch_costs_follows_tokens_witness:
  "snd (fetch_costs
      [Inr \<lparr>ResultsByTime = Some [\<lparr>TimePeriod = None, Groups = None, Total = None\<rparr>],
            NextPageToken = Some ''page-2''\<rparr>,
       Inr \<lparr>ResultsByTime = Some [\<lparr>TimePeriod = None, Groups = Some [], Total = None\<rparr>],
            NextPageToken = None\<rparr>,
       Inl ClientError]
      ''2024-01-01'' ''2024-01-31'' ''DAILY'' ''SERVICE'')
     = Inr [\<lparr>TimePeriod = None, Groups = None, Total = None\<rparr>,
            \<lparr>TimePeriod = None, Groups = Some [], Total = None\<rparr>]
   \<and> map rq_NextPageToken (fst (fetch_costs
      [Inr \<lparr>ResultsByTime = Some [\<lparr>TimePeriod = None, Groups = None, Total = None\<rparr>],
            NextPageToken = Some ''page-2''\<rparr>,
       Inr \<lparr>ResultsByTime = Some [\<lparr>TimePeriod = None, Groups = Some [], Total = None\<rparr>],
            NextPageToken = None\<rparr>,
       Inl ClientError]
      ''2024-01-01'' ''2024-01-31'' ''DAILY'' ''SERVICE''))
     = [None, Some ''page-2'']"
  using fetch_costs_follows_tokens
    [of "[\<lparr>ResultsByTime = Some [\<lparr>TimePeriod = None, Groups = None, Total = None\<rparr>],
           NextPageToken = Some ''page-2''\<rparr>]"
        "\<lparr>ResultsByTime = Some [\<lparr>TimePeriod = None, Groups = Some [], Total = None\<rparr>],
          NextPageToken = None\<rparr>"
        "[Inl ClientError]"
        "''2024-01-01''" "''2024-01-31''" "''DAILY''" "''SERVICE''"]
  by (simp add: truthy_def results_by_time_def)

end
